theory Spec2Isabelle
  imports Main "HOL-Library.Word" "HOL-Library.Signed_Division" "HOL-Library.Sublist"
begin

unbundle bit_operations_syntax

section \<open>Vulkan values the swap chain and the renderer handle\<close>

text \<open>
  Handles (\<^verbatim>\<open>VkFence\<close>, \<^verbatim>\<open>VkSemaphore\<close>, \<^verbatim>\<open>VkImage\<close>, ...) are opaque; they are
  natural numbers here and \<open>0\<close> is \<^verbatim>\<open>VK_NULL_HANDLE\<close>. The enumerations of the
  Vulkan headers are datatypes; each has a last constructor for the values the code never
  names.
\<close>

type_synonym uint32_t = "32 word"
type_synonym size_t = "64 word"
type_synonym handle = nat

definition VK_NULL_HANDLE :: handle where
  "VK_NULL_HANDLE = 0"

datatype VkResult =
    VK_SUCCESS
  | VK_NOT_READY
  | VK_TIMEOUT
  | VK_SUBOPTIMAL_KHR
  | VK_ERROR_OUT_OF_DATE_KHR
  | VK_ERROR_DEVICE_LOST
  | VK_ERROR_SURFACE_LOST_KHR
  | VK_ERROR_OUT_OF_HOST_MEMORY
  | VK_ERROR_OUT_OF_DEVICE_MEMORY
  | VK_ERROR_other int

datatype VkFormat =
    VK_FORMAT_UNDEFINED
  | VK_FORMAT_B8G8R8A8_UNORM
  | VK_FORMAT_B8G8R8A8_SRGB
  | VK_FORMAT_D32_SFLOAT
  | VK_FORMAT_D32_SFLOAT_S8_UINT
  | VK_FORMAT_D24_UNORM_S8_UINT
  | VK_FORMAT_other nat

datatype VkColorSpaceKHR =
    VK_COLOR_SPACE_SRGB_NONLINEAR_KHR
  | VK_COLOR_SPACE_other nat

datatype VkPresentModeKHR =
    VK_PRESENT_MODE_IMMEDIATE_KHR
  | VK_PRESENT_MODE_MAILBOX_KHR
  | VK_PRESENT_MODE_FIFO_KHR
  | VK_PRESENT_MODE_FIFO_RELAXED_KHR

datatype VkImageTiling = VK_IMAGE_TILING_OPTIMAL | VK_IMAGE_TILING_LINEAR

datatype VkSharingMode = VK_SHARING_MODE_EXCLUSIVE | VK_SHARING_MODE_CONCURRENT

datatype VkPipelineStage = VK_PIPELINE_STAGE_COLOR_ATTACHMENT_OUTPUT_BIT

record VkExtent2D =
  width :: uint32_t
  height :: uint32_t

record VkSurfaceFormatKHR =
  format :: VkFormat
  colorSpace :: VkColorSpaceKHR

record VkSurfaceCapabilitiesKHR =
  minImageCount :: uint32_t
  maxImageCount :: uint32_t
  currentExtent :: VkExtent2D
  minImageExtent :: VkExtent2D
  maxImageExtent :: VkExtent2D

text \<open>\<^verbatim>\<open>SwapChainSupportDetails\<close> and \<^verbatim>\<open>QueueFamilyIndices\<close> of lve_device.hpp.\<close>

record SwapChainSupportDetails =
  capabilities :: VkSurfaceCapabilitiesKHR
  formats :: "VkSurfaceFormatKHR list"
  presentModes :: "VkPresentModeKHR list"

record QueueFamilyIndices =
  graphicsFamily :: uint32_t
  presentFamily :: uint32_t

record VkFormatProperties =
  linearTilingFeatures :: uint32_t
  optimalTilingFeatures :: uint32_t

definition VK_FORMAT_FEATURE_DEPTH_STENCIL_ATTACHMENT_BIT :: uint32_t where
  "VK_FORMAT_FEATURE_DEPTH_STENCIL_ATTACHMENT_BIT = 0x200"

section \<open>How a call can end without returning\<close>

text \<open>
  \<open>RuntimeError\<close> is a thrown \<^verbatim>\<open>std::runtime_error\<close> with its message,
  \<open>AssertionFailed\<close> a failed \<^verbatim>\<open>assert\<close> with its message (the sources include
  \<^verbatim>\<open><cassert>\<close> and never define \<^verbatim>\<open>NDEBUG\<close>, so assertions are checked),
  \<open>OutOfRange\<close> a \<^verbatim>\<open>std::vector\<close> subscript outside the vector,
  \<open>NullDereference\<close> a member access through a null \<^verbatim>\<open>std::unique_ptr\<close>,
  \<open>SignedOverflow\<close> an \<^verbatim>\<open>int\<close> addition leaving the range of \<^verbatim>\<open>int\<close>, and
  \<open>NeverReturns\<close> a wait with no timeout for something that is never going to happen.
\<close>

datatype fault =
    RuntimeError string
  | AssertionFailed string
  | OutOfRange
  | NullDereference
  | SignedOverflow
  | NeverReturns

definition bindE :: "fault + 'a \<Rightarrow> ('a \<Rightarrow> fault + 'b) \<Rightarrow> fault + 'b" where
  "bindE m f = (case m of Inl e \<Rightarrow> Inl e | Inr x \<Rightarrow> f x)"

definition throw :: "string \<Rightarrow> fault + 'a" where
  "throw message = Inl (RuntimeError message)"

text \<open>\<^verbatim>\<open>v[i]\<close> on a \<^verbatim>\<open>std::vector\<close>, read: outside the vector it is no element of it.\<close>

definition element_at :: "'a list \<Rightarrow> nat \<Rightarrow> fault + 'a" where
  "element_at v i = (if i < length v then Inr (v ! i) else Inl OutOfRange)"

text \<open>\<^verbatim>\<open>v.resize(n, x)\<close>: cut to \<open>n\<close> elements, or filled up to \<open>n\<close> with \<open>x\<close>.\<close>

definition resize :: "nat \<Rightarrow> 'a \<Rightarrow> 'a list \<Rightarrow> 'a list" where
  "resize n x v = take n v @ replicate (n - length v) x"

text \<open>\<^verbatim>\<open>for (i = first; i < first + count; i++) body\<close>, stopping at the first throw.\<close>

fun for_loop :: "nat \<Rightarrow> nat \<Rightarrow> (nat \<Rightarrow> 's \<Rightarrow> fault + 's) \<Rightarrow> 's \<Rightarrow> fault + 's" where
  "for_loop first 0 body s = Inr s"
| "for_loop first (Suc count) body s = bindE (body first s) (for_loop (Suc first) count body)"

section \<open>The Vulkan implementation and the window, as the code sees them\<close>

text \<open>
  A fence is signaled, or unsignaled with a submission pending that will signal it, or
  unsignaled with nothing pending. The code observes a fence only by waiting for it with
  no timeout, so when the pending work finishes is not part of the model: a wait for a
  pending fence returns once the fence is signaled, a wait for an idle unsignaled fence
  never returns. A lost device is outside the model.
\<close>

datatype fence_status = Signaled | Pending | Unsignaled

text \<open>What GLFW delivers to the window: a new framebuffer size, or anything else.\<close>

datatype window_event = FramebufferSize int int | OtherEvent

datatype queue = graphicsQueue | presentQueue

record VkSwapchainCreateInfoKHR =
  createInfo_minImageCount :: uint32_t
  createInfo_imageFormat :: VkFormat
  createInfo_imageColorSpace :: VkColorSpaceKHR
  createInfo_imageExtent :: VkExtent2D
  createInfo_imageSharingMode :: VkSharingMode
  createInfo_queueFamilyIndexCount :: uint32_t
  createInfo_presentMode :: VkPresentModeKHR
  createInfo_oldSwapchain :: handle

text \<open>
  The calls the code makes, with the arguments the claims speak of. For
  \<open>vkQueueSubmit\<close>: the queue, the semaphore waited for, the stage it is waited at,
  the command buffer, the semaphore signaled and the fence. For \<open>vkQueuePresentKHR\<close>:
  the queue, the semaphore waited for, the swap chain and the image index. For
  \<open>vkCmdSetViewport\<close>: the command buffer only; the viewport, whose width and height
  are the extent converted to \<^verbatim>\<open>float\<close>, is not kept.
\<close>

datatype api_call =
    vkWaitForFences handle
  | vkResetFences handle
  | vkAcquireNextImageKHR handle handle
  | vkQueueSubmit queue handle VkPipelineStage handle handle handle
  | vkQueuePresentKHR queue handle handle uint32_t
  | vkGetPhysicalDeviceSurfaceSupport
  | vkCreateSwapchainKHR VkSwapchainCreateInfoKHR
  | vkGetSwapchainImagesKHR handle
  | vkCreateImageView handle VkFormat
  | vkCreateRenderPass VkFormat VkFormat
  | vkCreateImage VkExtent2D VkFormat
  | vkAllocateMemory uint32_t
  | vkBindImageMemory handle handle
  | vkCreateFramebuffer handle handle handle VkExtent2D
  | vkCreateSemaphore
  | vkCreateFence bool
  | vkDestroy handle
  | vkDeviceWaitIdle
  | vkAllocateCommandBuffers nat
  | vkBeginCommandBuffer handle
  | vkEndCommandBuffer handle
  | vkCmdBeginRenderPass handle handle handle VkExtent2D
  | vkCmdSetViewport handle
  | vkCmdSetScissor handle VkExtent2D
  | vkCmdEndRenderPass handle

text \<open>
  The world outside the two classes. \<open>fence\<close>, \<open>calls\<close> (the calls made so far, oldest
  first) and \<open>next_handle\<close> change as the code runs. What the implementation answers is
  given in advance and never changes: \<open>result_of k\<close> is the \<^verbatim>\<open>VkResult\<close> of the call
  made when \<open>k\<close> calls have been made before it, \<open>acquired_index k\<close> the image index
  \<open>vkAcquireNextImageKHR\<close> writes there, \<open>surface_support k\<close> what the surface queries
  report there and \<open>image_count k\<close> the number of images \<open>vkGetSwapchainImagesKHR\<close>
  reports there. The window is the \<^verbatim>\<open>LveWindow\<close> members \<open>win_width\<close>,
  \<open>win_height\<close> and \<open>framebufferResized\<close>, and the framebuffer-size events still to
  come; \<^verbatim>\<open>framebufferResizeCallback\<close> handles those that bring a new size.
\<close>

record world =
  fence :: "handle \<Rightarrow> fence_status"
  calls :: "api_call list"
  next_handle :: nat
  result_of :: "nat \<Rightarrow> VkResult"
  acquired_index :: "nat \<Rightarrow> uint32_t"
  surface_support :: "nat \<Rightarrow> SwapChainSupportDetails"
  image_count :: "nat \<Rightarrow> uint32_t"
  queue_families :: QueueFamilyIndices
  format_properties :: "VkFormat \<Rightarrow> VkFormatProperties"
  memoryTypeBits :: uint32_t
  memoryTypes :: "uint32_t list"
  win_width :: int
  win_height :: int
  framebufferResized :: bool
  events :: "window_event list"

definition api :: "api_call \<Rightarrow> world \<Rightarrow> VkResult \<times> world" where
  "api c w = (result_of w (length (calls w)), w\<lparr>calls := calls w @ [c]\<rparr>)"

text \<open>A handle the implementation hands out: never null, never handed out before.\<close>

definition fresh :: "world \<Rightarrow> handle \<times> world" where
  "fresh w = (Suc (next_handle w), w\<lparr>next_handle := Suc (next_handle w)\<rparr>)"

definition fresh_many :: "nat \<Rightarrow> world \<Rightarrow> handle list \<times> world" where
  "fresh_many n w =
     (map (\<lambda>k. Suc (next_handle w + k)) [0..<n], w\<lparr>next_handle := next_handle w + n\<rparr>)"

text \<open>A creating call followed by the code's \<^verbatim>\<open>!= VK_SUCCESS\<close> test and throw.\<close>

definition create :: "api_call \<Rightarrow> string \<Rightarrow> world \<Rightarrow> fault + (handle \<times> world)" where
  "create c message w =
     (case api c w of (r, w1) \<Rightarrow>
        if r \<noteq> VK_SUCCESS then throw message else Inr (fresh w1))"

definition wait_for_fence :: "handle \<Rightarrow> world \<Rightarrow> fault + world" where
  "wait_for_fence f w =
     (case fence w f of
        Signaled \<Rightarrow> Inr (snd (api (vkWaitForFences f) w))
      | Pending \<Rightarrow> Inr (snd (api (vkWaitForFences f) (w\<lparr>fence := (fence w)(f := Signaled)\<rparr>)))
      | Unsignaled \<Rightarrow> Inl NeverReturns)"

definition reset_fence :: "handle \<Rightarrow> world \<Rightarrow> world" where
  "reset_fence f w = snd (api (vkResetFences f) (w\<lparr>fence := (fence w)(f := Unsignaled)\<rparr>))"

section \<open>The parts of LveDevice the swap chain calls\<close>

text \<open>
  \<open>getSwapChainSupport\<close> stands for the surface queries of
  \<^verbatim>\<open>LveDevice::querySwapChainSupport\<close>; \<open>findPhysicalQueueFamilies\<close> for the queue
  family search, whose answer does not change while the device lives.
\<close>

definition getSwapChainSupport :: "world \<Rightarrow> SwapChainSupportDetails \<times> world" where
  "getSwapChainSupport w =
     (surface_support w (length (calls w)), snd (api vkGetPhysicalDeviceSurfaceSupport w))"

definition findPhysicalQueueFamilies :: "world \<Rightarrow> QueueFamilyIndices" where
  "findPhysicalQueueFamilies w = queue_families w"

fun findSupportedFormat ::
  "world \<Rightarrow> VkFormat list \<Rightarrow> VkImageTiling \<Rightarrow> uint32_t \<Rightarrow> fault + VkFormat" where
  "findSupportedFormat w [] tiling features = throw ''failed to find supported format!''"
| "findSupportedFormat w (candidate # candidates) tiling features =
     (let props = format_properties w candidate in
      if tiling = VK_IMAGE_TILING_LINEAR \<and> (linearTilingFeatures props AND features) = features
      then Inr candidate
      else if tiling = VK_IMAGE_TILING_OPTIMAL \<and>
              (optimalTilingFeatures props AND features) = features
      then Inr candidate
      else findSupportedFormat w candidates tiling features)"

text \<open>The loop of \<^verbatim>\<open>findMemoryType\<close> from index \<open>i\<close> over the remaining memory types.\<close>

fun findMemoryType_loop :: "uint32_t \<Rightarrow> uint32_t \<Rightarrow> nat \<Rightarrow> uint32_t list \<Rightarrow> fault + uint32_t" where
  "findMemoryType_loop typeFilter properties i [] = throw ''failed to find suitable memory type!''"
| "findMemoryType_loop typeFilter properties i (propertyFlags # rest) =
     (if (typeFilter AND push_bit i 1) \<noteq> 0 \<and> (propertyFlags AND properties) = properties
      then Inr (of_nat i)
      else findMemoryType_loop typeFilter properties (Suc i) rest)"

definition findMemoryType :: "world \<Rightarrow> uint32_t \<Rightarrow> uint32_t \<Rightarrow> fault + uint32_t" where
  "findMemoryType w typeFilter properties =
     findMemoryType_loop typeFilter properties 0 (memoryTypes w)"

definition createImageWithInfo ::
  "VkExtent2D \<Rightarrow> VkFormat \<Rightarrow> uint32_t \<Rightarrow> world \<Rightarrow> fault + ((handle \<times> handle) \<times> world)" where
  "createImageWithInfo extent imageFormat properties w =
     bindE (create (vkCreateImage extent imageFormat) ''failed to create image!'' w)
       (\<lambda>(image, w1).
     bindE (findMemoryType w1 (memoryTypeBits w1) properties)
       (\<lambda>memoryTypeIndex.
     bindE (create (vkAllocateMemory memoryTypeIndex) ''failed to allocate image memory!'' w1)
       (\<lambda>(imageMemory, w2).
     case api (vkBindImageMemory image imageMemory) w2 of (r, w3) \<Rightarrow>
       if r \<noteq> VK_SUCCESS then throw ''failed to bind image memory!''
       else Inr ((image, imageMemory), w3))))"

section \<open>LveSwapChain\<close>

text \<open>
  The members of the class. \<open>oldSwapChain\<close> is the \<^verbatim>\<open>std::shared_ptr\<close> to the previous
  instance: \<open>None\<close> is the null pointer, \<open>Some old\<close> points to an instance whose members
  are \<open>old\<close> (nothing changes the previous instance while the new one holds the pointer).
\<close>

record LveSwapChain_members =
  swapChainImageFormat :: VkFormat
  swapChainDepthFormat :: VkFormat
  swapChainExtent :: VkExtent2D
  swapChainFramebuffers :: "handle list"
  renderPass :: handle
  depthImages :: "handle list"
  depthImageMemorys :: "handle list"
  depthImageViews :: "handle list"
  swapChainImages :: "handle list"
  swapChainImageViews :: "handle list"
  windowExtent :: VkExtent2D
  swapChain :: handle
  imageAvailableSemaphores :: "handle list"
  renderFinishedSemaphores :: "handle list"
  inFlightFences :: "handle list"
  imagesInFlight :: "handle list"
  currentFrame :: size_t

record LveSwapChain = LveSwapChain_members +
  oldSwapChain :: "LveSwapChain_members option"

definition MAX_FRAMES_IN_FLIGHT :: nat where
  "MAX_FRAMES_IN_FLIGHT = 2"

definition imageCount :: "'a LveSwapChain_members_scheme \<Rightarrow> nat" where
  "imageCount sc = length (swapChainImages sc)"

definition compareSwapFormats ::
  "'a LveSwapChain_members_scheme \<Rightarrow> 'b LveSwapChain_members_scheme \<Rightarrow> bool" where
  "compareSwapFormats this other \<longleftrightarrow>
     swapChainDepthFormat other = swapChainDepthFormat this \<and>
     swapChainImageFormat other = swapChainImageFormat this"

section \<open>Choosing the surface format, the present mode and the extent\<close>

definition preferred_format :: "VkSurfaceFormatKHR \<Rightarrow> bool" where
  "preferred_format availableFormat \<longleftrightarrow>
     format availableFormat = VK_FORMAT_B8G8R8A8_SRGB \<and>
     colorSpace availableFormat = VK_COLOR_SPACE_SRGB_NONLINEAR_KHR"

text \<open>The range-for of \<^verbatim>\<open>chooseSwapSurfaceFormat\<close>: the first entry passing the test.\<close>

fun chooseSwapSurfaceFormat_loop :: "VkSurfaceFormatKHR list \<Rightarrow> VkSurfaceFormatKHR option" where
  "chooseSwapSurfaceFormat_loop [] = None"
| "chooseSwapSurfaceFormat_loop (availableFormat # rest) =
     (if preferred_format availableFormat then Some availableFormat
      else chooseSwapSurfaceFormat_loop rest)"

text \<open>After the loop the code returns \<^verbatim>\<open>availableFormats[0]\<close>, which is outside an empty vector.\<close>

definition chooseSwapSurfaceFormat :: "VkSurfaceFormatKHR list \<Rightarrow> fault + VkSurfaceFormatKHR" where
  "chooseSwapSurfaceFormat availableFormats =
     (case chooseSwapSurfaceFormat_loop availableFormats of
        Some availableFormat \<Rightarrow> Inr availableFormat
      | None \<Rightarrow> element_at availableFormats 0)"

fun chooseSwapPresentMode :: "VkPresentModeKHR list \<Rightarrow> VkPresentModeKHR" where
  "chooseSwapPresentMode [] = VK_PRESENT_MODE_FIFO_KHR"
| "chooseSwapPresentMode (availablePresentMode # rest) =
     (if availablePresentMode = VK_PRESENT_MODE_MAILBOX_KHR then availablePresentMode
      else chooseSwapPresentMode rest)"

text \<open>
  \<^verbatim>\<open>std::numeric_limits<uint32_t>::max()\<close> is \<open>0xFFFFFFFF\<close>; \<^verbatim>\<open>std::max\<close> and
  \<^verbatim>\<open>std::min\<close> compare unsigned, as the order of words does.
\<close>

definition UINT32_MAX :: uint32_t where
  "UINT32_MAX = 0xFFFFFFFF"

definition chooseSwapExtent ::
  "'a LveSwapChain_members_scheme \<Rightarrow> VkSurfaceCapabilitiesKHR \<Rightarrow> VkExtent2D" where
  "chooseSwapExtent this caps =
     (if width (currentExtent caps) \<noteq> UINT32_MAX then currentExtent caps
      else
        let actualExtent = windowExtent this;
            actualExtent = actualExtent\<lparr>width :=
              max (width (minImageExtent caps))
                  (min (width (maxImageExtent caps)) (width actualExtent))\<rparr>;
            actualExtent = actualExtent\<lparr>height :=
              max (height (minImageExtent caps))
                  (min (height (maxImageExtent caps)) (height actualExtent))\<rparr>
        in actualExtent)"

definition findDepthFormat :: "world \<Rightarrow> fault + VkFormat" where
  "findDepthFormat w =
     findSupportedFormat w
       [VK_FORMAT_D32_SFLOAT, VK_FORMAT_D32_SFLOAT_S8_UINT, VK_FORMAT_D24_UNORM_S8_UINT]
       VK_IMAGE_TILING_OPTIMAL
       VK_FORMAT_FEATURE_DEPTH_STENCIL_ATTACHMENT_BIT"

section \<open>Building the swap chain\<close>

text \<open>
  The image count asked for: \<open>minImageCount + 1\<close> in \<^verbatim>\<open>uint32_t\<close>, replaced by
  \<open>maxImageCount\<close> when that is not zero and smaller.
\<close>

definition requested_imageCount :: "VkSurfaceCapabilitiesKHR \<Rightarrow> uint32_t" where
  "requested_imageCount caps =
     (let imageCount = minImageCount caps + 1 in
      if maxImageCount caps > 0 \<and> imageCount > maxImageCount caps then maxImageCount caps
      else imageCount)"

text \<open>
  The two calls of \<open>vkGetSwapchainImagesKHR\<close>: the first reports how many images the
  implementation made, the vector is resized to that count and the second fills it.
\<close>

definition getSwapchainImages :: "handle \<Rightarrow> world \<Rightarrow> handle list \<times> world" where
  "getSwapchainImages chain w =
     (let n = unat (image_count w (length (calls w)));
          w1 = snd (api (vkGetSwapchainImagesKHR chain) w);
          w2 = snd (api (vkGetSwapchainImagesKHR chain) w1)
      in fresh_many n w2)"

definition createSwapChain :: "LveSwapChain \<Rightarrow> world \<Rightarrow> fault + (LveSwapChain \<times> world)" where
  "createSwapChain this w =
     (case getSwapChainSupport w of (swapChainSupport, w1) \<Rightarrow>
      bindE (chooseSwapSurfaceFormat (formats swapChainSupport)) (\<lambda>surfaceFormat.
      let presentMode = chooseSwapPresentMode (presentModes swapChainSupport);
          extent = chooseSwapExtent this (capabilities swapChainSupport);
          indices = findPhysicalQueueFamilies w1;
          createInfo = \<lparr>
            createInfo_minImageCount = requested_imageCount (capabilities swapChainSupport),
            createInfo_imageFormat = format surfaceFormat,
            createInfo_imageColorSpace = colorSpace surfaceFormat,
            createInfo_imageExtent = extent,
            createInfo_imageSharingMode =
              (if graphicsFamily indices \<noteq> presentFamily indices
               then VK_SHARING_MODE_CONCURRENT else VK_SHARING_MODE_EXCLUSIVE),
            createInfo_queueFamilyIndexCount =
              (if graphicsFamily indices \<noteq> presentFamily indices then 2 else 0),
            createInfo_presentMode = presentMode,
            createInfo_oldSwapchain =
              (case oldSwapChain this of None \<Rightarrow> VK_NULL_HANDLE | Some old \<Rightarrow> swapChain old)\<rparr>
      in bindE (create (vkCreateSwapchainKHR createInfo) ''failed to create swap chain!'' w1)
           (\<lambda>(chain, w2).
              case getSwapchainImages chain w2 of (images, w3) \<Rightarrow>
                Inr (this\<lparr>swapChain := chain,
                          swapChainImages := images,
                          swapChainImageFormat := format surfaceFormat,
                          swapChainExtent := extent\<rparr>, w3))))"

text \<open>The body of the loop of \<^verbatim>\<open>createImageViews\<close>, for image \<open>i\<close>.\<close>

definition createImageViews_body ::
  "nat \<Rightarrow> LveSwapChain \<times> world \<Rightarrow> fault + (LveSwapChain \<times> world)" where
  "createImageViews_body i = (\<lambda>(this, w).
     bindE (element_at (swapChainImages this) i) (\<lambda>image.
     bindE (create (vkCreateImageView image (swapChainImageFormat this))
              ''failed to create texture image view!'' w)
       (\<lambda>(view, w1).
          Inr (this\<lparr>swapChainImageViews := (swapChainImageViews this)[i := view]\<rparr>, w1))))"

definition createImageViews :: "LveSwapChain \<Rightarrow> world \<Rightarrow> fault + (LveSwapChain \<times> world)" where
  "createImageViews this w =
     for_loop 0 (length (swapChainImages this)) createImageViews_body
       (this\<lparr>swapChainImageViews :=
                resize (length (swapChainImages this)) VK_NULL_HANDLE (swapChainImageViews this)\<rparr>,
        w)"

definition createRenderPass :: "LveSwapChain \<Rightarrow> world \<Rightarrow> fault + (LveSwapChain \<times> world)" where
  "createRenderPass this w =
     bindE (findDepthFormat w) (\<lambda>depthFormat.
     bindE (create (vkCreateRenderPass (swapChainImageFormat this) depthFormat)
              ''failed to create render pass!'' w)
       (\<lambda>(pass, w1). Inr (this\<lparr>renderPass := pass\<rparr>, w1)))"

definition VK_MEMORY_PROPERTY_DEVICE_LOCAL_BIT :: uint32_t where
  "VK_MEMORY_PROPERTY_DEVICE_LOCAL_BIT = 1"

text \<open>
  The body of the loop of \<^verbatim>\<open>createDepthResources\<close>, for image \<open>i\<close>; the extent and
  the depth format are the locals set before the loop.
\<close>

definition createDepthResources_body ::
  "VkExtent2D \<Rightarrow> VkFormat \<Rightarrow> nat \<Rightarrow> LveSwapChain \<times> world \<Rightarrow> fault + (LveSwapChain \<times> world)" where
  "createDepthResources_body extent depthFormat i = (\<lambda>(this, w).
     bindE (createImageWithInfo extent depthFormat VK_MEMORY_PROPERTY_DEVICE_LOCAL_BIT w)
       (\<lambda>((image, imageMemory), w1).
     let this = this\<lparr>depthImages := (depthImages this)[i := image],
                       depthImageMemorys := (depthImageMemorys this)[i := imageMemory]\<rparr>
     in bindE (create (vkCreateImageView image depthFormat)
                 ''failed to create texture image view!'' w1)
          (\<lambda>(view, w2).
             Inr (this\<lparr>depthImageViews := (depthImageViews this)[i := view]\<rparr>, w2))))"

definition createDepthResources :: "LveSwapChain \<Rightarrow> world \<Rightarrow> fault + (LveSwapChain \<times> world)" where
  "createDepthResources this w =
     bindE (findDepthFormat w) (\<lambda>depthFormat.
     let this = this\<lparr>swapChainDepthFormat := depthFormat\<rparr>;
         extent = swapChainExtent this;
         this = this\<lparr>depthImages := resize (imageCount this) VK_NULL_HANDLE (depthImages this)\<rparr>;
         this = this\<lparr>depthImageMemorys :=
                  resize (imageCount this) VK_NULL_HANDLE (depthImageMemorys this)\<rparr>;
         this = this\<lparr>depthImageViews :=
                  resize (imageCount this) VK_NULL_HANDLE (depthImageViews this)\<rparr>
     in for_loop 0 (length (depthImages this)) (createDepthResources_body extent depthFormat)
          (this, w))"

text \<open>The body of the loop of \<^verbatim>\<open>createFramebuffers\<close>, for image \<open>i\<close>.\<close>

definition createFramebuffers_body ::
  "nat \<Rightarrow> LveSwapChain \<times> world \<Rightarrow> fault + (LveSwapChain \<times> world)" where
  "createFramebuffers_body i = (\<lambda>(this, w).
     bindE (element_at (swapChainImageViews this) i) (\<lambda>colorView.
     bindE (element_at (depthImageViews this) i) (\<lambda>depthView.
     bindE (create (vkCreateFramebuffer (renderPass this) colorView depthView
                      (swapChainExtent this))
              ''failed to create framebuffer!'' w)
       (\<lambda>(framebuffer, w1).
          Inr (this\<lparr>swapChainFramebuffers :=
                      (swapChainFramebuffers this)[i := framebuffer]\<rparr>, w1)))))"

definition createFramebuffers :: "LveSwapChain \<Rightarrow> world \<Rightarrow> fault + (LveSwapChain \<times> world)" where
  "createFramebuffers this w =
     for_loop 0 (imageCount this) createFramebuffers_body
       (this\<lparr>swapChainFramebuffers :=
                resize (imageCount this) VK_NULL_HANDLE (swapChainFramebuffers this)\<rparr>,
        w)"

text \<open>
  One round of the loop of \<^verbatim>\<open>createSyncObjects\<close>. The three creations are joined by
  \<^verbatim>\<open>||\<close>: the first that fails ends the test and the later ones are not made. Each fence
  is created with \<^verbatim>\<open>VK_FENCE_CREATE_SIGNALED_BIT\<close>.
\<close>

definition createSyncObjects_body ::
  "nat \<Rightarrow> LveSwapChain \<times> world \<Rightarrow> fault + (LveSwapChain \<times> world)" where
  "createSyncObjects_body i = (\<lambda>(this, w).
     bindE (create vkCreateSemaphore
              ''failed to create synchronization objects for a frame!'' w)
       (\<lambda>(imageAvailable, w1).
     bindE (create vkCreateSemaphore
              ''failed to create synchronization objects for a frame!'' w1)
       (\<lambda>(renderFinished, w2).
     bindE (create (vkCreateFence True)
              ''failed to create synchronization objects for a frame!'' w2)
       (\<lambda>(inFlight, w3).
          Inr (this\<lparr>imageAvailableSemaphores := (imageAvailableSemaphores this)[i := imageAvailable],
                    renderFinishedSemaphores := (renderFinishedSemaphores this)[i := renderFinished],
                    inFlightFences := (inFlightFences this)[i := inFlight]\<rparr>,
               w3\<lparr>fence := (fence w3)(inFlight := Signaled)\<rparr>)))))"

definition createSyncObjects :: "LveSwapChain \<Rightarrow> world \<Rightarrow> fault + (LveSwapChain \<times> world)" where
  "createSyncObjects this w =
     for_loop 0 MAX_FRAMES_IN_FLIGHT createSyncObjects_body
       (this\<lparr>imageAvailableSemaphores :=
                resize MAX_FRAMES_IN_FLIGHT VK_NULL_HANDLE (imageAvailableSemaphores this),
              renderFinishedSemaphores :=
                resize MAX_FRAMES_IN_FLIGHT VK_NULL_HANDLE (renderFinishedSemaphores this),
              inFlightFences := resize MAX_FRAMES_IN_FLIGHT VK_NULL_HANDLE (inFlightFences this),
              imagesInFlight := resize (imageCount this) VK_NULL_HANDLE (imagesInFlight this)\<rparr>,
        w)"

definition init :: "LveSwapChain \<Rightarrow> world \<Rightarrow> fault + (LveSwapChain \<times> world)" where
  "init this w =
     bindE (createSwapChain this w) (\<lambda>(this, w).
     bindE (createImageViews this w) (\<lambda>(this, w).
     bindE (createRenderPass this w) (\<lambda>(this, w).
     bindE (createDepthResources this w) (\<lambda>(this, w).
     bindE (createFramebuffers this w) (\<lambda>(this, w).
     createSyncObjects this w)))))"

text \<open>
  The object before a constructor body runs: the vectors are empty and \<open>currentFrame\<close>
  is 0 by its initialiser. The other members have no initialiser; each is assigned by
  \<open>init\<close> before anything reads it, and they start here at a fixed value.
\<close>

definition members_before_init ::
  "VkExtent2D \<Rightarrow> LveSwapChain_members option \<Rightarrow> LveSwapChain" where
  "members_before_init extent previous = \<lparr>
     swapChainImageFormat = VK_FORMAT_UNDEFINED,
     swapChainDepthFormat = VK_FORMAT_UNDEFINED,
     swapChainExtent = \<lparr>width = 0, height = 0\<rparr>,
     swapChainFramebuffers = [],
     renderPass = VK_NULL_HANDLE,
     depthImages = [],
     depthImageMemorys = [],
     depthImageViews = [],
     swapChainImages = [],
     swapChainImageViews = [],
     windowExtent = extent,
     swapChain = VK_NULL_HANDLE,
     imageAvailableSemaphores = [],
     renderFinishedSemaphores = [],
     inFlightFences = [],
     imagesInFlight = [],
     currentFrame = 0,
     oldSwapChain = previous\<rparr>"

text \<open>\<^verbatim>\<open>LveSwapChain(deviceRef, extent)\<close>.\<close>

definition LveSwapChain_new :: "VkExtent2D \<Rightarrow> world \<Rightarrow> fault + (LveSwapChain \<times> world)" where
  "LveSwapChain_new extent w = init (members_before_init extent None) w"

text \<open>\<^verbatim>\<open>LveSwapChain(deviceRef, extent, previous)\<close>: \<open>init\<close>, then the pointer is set to null.\<close>

definition LveSwapChain_recreate ::
  "VkExtent2D \<Rightarrow> LveSwapChain_members option \<Rightarrow> world \<Rightarrow> fault + (LveSwapChain \<times> world)" where
  "LveSwapChain_recreate extent previous w =
     bindE (init (members_before_init extent previous) w)
       (\<lambda>(this, w1). Inr (this\<lparr>oldSwapChain := None\<rparr>, w1))"

text \<open>
  The destructor: every object the instance owns is destroyed. It runs on constructed
  instances, whose vectors of depth resources are equally long and whose vectors of
  semaphores and fences hold \<open>MAX_FRAMES_IN_FLIGHT\<close> elements.
\<close>

definition LveSwapChain_destroy :: "'a LveSwapChain_members_scheme \<Rightarrow> world \<Rightarrow> world" where
  "LveSwapChain_destroy this w =
     w\<lparr>calls := calls w @ map vkDestroy
        (swapChainImageViews this
         @ (if swapChain this \<noteq> VK_NULL_HANDLE then [swapChain this] else [])
         @ concat (map (\<lambda>i. [depthImageViews this ! i, depthImages this ! i,
                              depthImageMemorys this ! i]) [0..<length (depthImages this)])
         @ swapChainFramebuffers this
         @ [renderPass this]
         @ concat (map (\<lambda>i. [renderFinishedSemaphores this ! i, imageAvailableSemaphores this ! i,
                              inFlightFences this ! i]) [0..<MAX_FRAMES_IN_FLIGHT]))\<rparr>"

section \<open>Acquiring, submitting and presenting\<close>

text \<open>
  \<^verbatim>\<open>acquireNextImage\<close> waits for the fence of the current slot, then asks for an image
  with the slot's image-available semaphore. The result is the call's; the index is
  written through the pointer when the call gives an image.
\<close>

definition acquireNextImage ::
  "LveSwapChain \<Rightarrow> uint32_t \<Rightarrow> world \<Rightarrow> fault + ((VkResult \<times> uint32_t) \<times> world)" where
  "acquireNextImage this imageIndex w =
     bindE (element_at (inFlightFences this) (unat (currentFrame this))) (\<lambda>slotFence.
     bindE (wait_for_fence slotFence w) (\<lambda>w1.
     bindE (element_at (imageAvailableSemaphores this) (unat (currentFrame this))) (\<lambda>imageAvailable.
     let written = acquired_index w1 (length (calls w1)) in
     case api (vkAcquireNextImageKHR (swapChain this) imageAvailable) w1 of (result, w2) \<Rightarrow>
       Inr ((result,
             if result = VK_SUCCESS \<or> result = VK_SUBOPTIMAL_KHR then written else imageIndex),
            w2))))"

text \<open>
  A step that can end the call, made in world \<open>w\<close>: when it ends the call, the call
  ends with the step's fault and leaves the world at \<open>w\<close>.
\<close>

definition bindW ::
  "fault + 'a \<Rightarrow> world \<Rightarrow> ('a \<Rightarrow> (fault + 'b) \<times> world) \<Rightarrow> (fault + 'b) \<times> world" where
  "bindW m w f = (case m of Inl e \<Rightarrow> (Inl e, w) | Inr x \<Rightarrow> f x)"

text \<open>
  The body of \<^verbatim>\<open>submitCommandBuffers\<close>, statement by statement: how the call ends
  (the fault, or the result returned and the object as the call leaves it) and the world as
  the call leaves it, whether it returns or throws. \<open>currentFrame\<close> is a
  \<^verbatim>\<open>size_t\<close>: the sum and the remainder are unsigned, in 64 bits.
\<close>

definition submitCommandBuffers_steps ::
  "LveSwapChain \<Rightarrow> handle \<Rightarrow> uint32_t \<Rightarrow> world \<Rightarrow> (fault + (VkResult \<times> LveSwapChain)) \<times> world" where
  "submitCommandBuffers_steps this buffer imageIndex w =
     bindW (element_at (imagesInFlight this) (unat imageIndex)) w (\<lambda>imageFence.
     bindW (if imageFence \<noteq> VK_NULL_HANDLE then wait_for_fence imageFence w else Inr w) w (\<lambda>w1.
     bindW (element_at (inFlightFences this) (unat (currentFrame this))) w1 (\<lambda>slotFence.
     let this = this\<lparr>imagesInFlight := (imagesInFlight this)[unat imageIndex := slotFence]\<rparr> in
     bindW (element_at (imageAvailableSemaphores this) (unat (currentFrame this))) w1
       (\<lambda>waitSemaphore.
     bindW (element_at (renderFinishedSemaphores this) (unat (currentFrame this))) w1
       (\<lambda>signalSemaphore.
     let w2 = reset_fence slotFence w1 in
     case api (vkQueueSubmit graphicsQueue waitSemaphore
                 VK_PIPELINE_STAGE_COLOR_ATTACHMENT_OUTPUT_BIT buffer signalSemaphore slotFence) w2
     of (submitted, w3) \<Rightarrow>
       if submitted \<noteq> VK_SUCCESS then (throw ''failed to submit draw command buffer!'', w3)
       else
         let w4 = w3\<lparr>fence := (fence w3)(slotFence := Pending)\<rparr> in
         case api (vkQueuePresentKHR presentQueue signalSemaphore (swapChain this) imageIndex) w4
         of (result, w5) \<Rightarrow>
           let this = this\<lparr>currentFrame :=
                        (currentFrame this + 1) mod word_of_nat MAX_FRAMES_IN_FLIGHT\<rparr>
           in (Inr (result, this), w5))))))"

text \<open>
  \<^verbatim>\<open>submitCommandBuffers\<close> as its callers see it: the fault, or the result, the object
  and the world.
\<close>

definition submitCommandBuffers ::
  "LveSwapChain \<Rightarrow> handle \<Rightarrow> uint32_t \<Rightarrow> world \<Rightarrow> fault + ((VkResult \<times> LveSwapChain) \<times> world)" where
  "submitCommandBuffers this buffer imageIndex w =
     (case submitCommandBuffers_steps this buffer imageIndex w of
        (Inl e, w') \<Rightarrow> Inl e
      | (Inr returned, w') \<Rightarrow> Inr (returned, w'))"

section \<open>LveWindow\<close>

text \<open>
  \<^verbatim>\<open>framebufferResizeCallback\<close> as in the source. \<^verbatim>\<open>glfwWaitEvents\<close> sleeps until an
  event arrives and handles it; with no event ever arriving it does not return.
\<close>

definition framebufferResizeCallback :: "int \<Rightarrow> int \<Rightarrow> world \<Rightarrow> world" where
  "framebufferResizeCallback new_width new_height w =
     w\<lparr>framebufferResized := True, win_width := new_width, win_height := new_height\<rparr>"

definition glfwWaitEvents :: "world \<Rightarrow> fault + world" where
  "glfwWaitEvents w =
     (case events w of
        [] \<Rightarrow> Inl NeverReturns
      | FramebufferSize new_width new_height # rest \<Rightarrow>
          Inr (framebufferResizeCallback new_width new_height (w\<lparr>events := rest\<rparr>))
      | OtherEvent # rest \<Rightarrow> Inr (w\<lparr>events := rest\<rparr>))"

text \<open>
  \<^verbatim>\<open>LveWindow::getExtent\<close>, \<^verbatim>\<open>wasWindowResized\<close> and \<^verbatim>\<open>resetWindowResizedFlag\<close>, as
  the class defines them in lve_window.hpp. \<^verbatim>\<open>width\<close> and \<^verbatim>\<open>height\<close> are \<^verbatim>\<open>int\<close>
  members and \<^verbatim>\<open>getExtent\<close> converts each with \<^verbatim>\<open>static_cast<uint32_t>\<close>, which is
  the value modulo \<open>2 ^ 32\<close>.
\<close>

definition getExtent :: "world \<Rightarrow> VkExtent2D" where
  "getExtent w = \<lparr>width = word_of_int (win_width w), height = word_of_int (win_height w)\<rparr>"

definition wasWindowResized :: "world \<Rightarrow> bool" where
  "wasWindowResized w = framebufferResized w"

definition resetWindowResizedFlag :: "world \<Rightarrow> world" where
  "resetWindowResizedFlag w = w\<lparr>framebufferResized := False\<rparr>"

section \<open>LveRenderer\<close>

text \<open>
  \<open>lveSwapChain\<close> is the \<^verbatim>\<open>std::unique_ptr\<close>: \<open>None\<close> is null. \<open>currentFrameIndex\<close> is
  an \<^verbatim>\<open>int\<close>.
\<close>

record LveRenderer =
  lveSwapChain :: "LveSwapChain option"
  commandBuffers :: "handle list"
  currentImageIndex :: uint32_t
  currentFrameIndex :: int
  isFrameStarted :: bool

definition assert :: "bool \<Rightarrow> string \<Rightarrow> fault + unit" where
  "assert condition message = (if condition then Inr () else Inl (AssertionFailed message))"

definition deref :: "'a option \<Rightarrow> fault + 'a" where
  "deref p = (case p of None \<Rightarrow> Inl NullDereference | Some object \<Rightarrow> Inr object)"

text \<open>A vector subscripted by an \<^verbatim>\<open>int\<close>: a negative one is outside as well.\<close>

definition element_at_int :: "'a list \<Rightarrow> int \<Rightarrow> fault + 'a" where
  "element_at_int v i = (if 0 \<le> i then element_at v (nat i) else Inl OutOfRange)"

definition getCurrentCommandBuffer :: "LveRenderer \<Rightarrow> fault + handle" where
  "getCurrentCommandBuffer this =
     bindE (assert (isFrameStarted this)
              ''Cannot get command buffer when frame not in progress'') (\<lambda>_.
     element_at_int (commandBuffers this) (currentFrameIndex this))"

definition getFrameIndex :: "LveRenderer \<Rightarrow> fault + int" where
  "getFrameIndex this =
     bindE (assert (isFrameStarted this)
              ''Cannot get frame index when frame not in progress'') (\<lambda>_.
     Inr (currentFrameIndex this))"

text \<open>
  The loop at the head of \<^verbatim>\<open>recreateSwapChain\<close>:
  \<^verbatim>\<open>while (extent.width == 0 || extent.height == 0) { extent = getExtent(); glfwWaitEvents(); }\<close>
\<close>

function wait_while_minimized :: "VkExtent2D \<Rightarrow> world \<Rightarrow> fault + (VkExtent2D \<times> world)" where
  "wait_while_minimized extent w =
     (if width extent = 0 \<or> height extent = 0 then
        (case glfwWaitEvents w of
           Inl e \<Rightarrow> Inl e
         | Inr w1 \<Rightarrow> wait_while_minimized (getExtent w) w1)
      else Inr (extent, w))"
  by pat_completeness auto
termination
  by (relation "measure (\<lambda>(extent, w). length (events w))")
     (auto simp: glfwWaitEvents_def framebufferResizeCallback_def
           split: list.splits window_event.splits)

definition recreateSwapChain :: "LveRenderer \<Rightarrow> world \<Rightarrow> fault + (LveRenderer \<times> world)" where
  "recreateSwapChain this w =
     bindE (wait_while_minimized (getExtent w) w) (\<lambda>(extent, w1).
     let w2 = snd (api vkDeviceWaitIdle w1) in
     case lveSwapChain this of
       None \<Rightarrow>
         bindE (LveSwapChain_new extent w2) (\<lambda>(new, w3).
         Inr (this\<lparr>lveSwapChain := Some new\<rparr>, w3))
     | Some oldChain \<Rightarrow>
         bindE (LveSwapChain_recreate extent
                  (Some (LveSwapChain_members.truncate oldChain)) w2) (\<lambda>(new, w3).
         if \<not> compareSwapFormats oldChain new
         then throw ''Swap chain image(or depth) format has changed!''
         else Inr (this\<lparr>lveSwapChain := Some new\<rparr>, LveSwapChain_destroy oldChain w3)))"

definition createCommandBuffers :: "LveRenderer \<Rightarrow> world \<Rightarrow> fault + (LveRenderer \<times> world)" where
  "createCommandBuffers this w =
     (let this = this\<lparr>commandBuffers :=
                   resize MAX_FRAMES_IN_FLIGHT VK_NULL_HANDLE (commandBuffers this)\<rparr> in
      case api (vkAllocateCommandBuffers (length (commandBuffers this))) w of (r, w1) \<Rightarrow>
        if r \<noteq> VK_SUCCESS then throw ''failed to allocate command buffers!''
        else case fresh_many (length (commandBuffers this)) w1 of (buffers, w2) \<Rightarrow>
          Inr (this\<lparr>commandBuffers := buffers\<rparr>, w2))"

text \<open>
  The constructor. \<^verbatim>\<open>currentImageIndex\<close>, \<^verbatim>\<open>currentFrameIndex\<close> and
  \<^verbatim>\<open>isFrameStarted\<close> have no initialiser in the class and the constructor assigns none
  of them: what they hold at first is a parameter here.
\<close>

definition LveRenderer_new ::
  "uint32_t \<Rightarrow> int \<Rightarrow> bool \<Rightarrow> world \<Rightarrow> fault + (LveRenderer \<times> world)" where
  "LveRenderer_new imageIndex0 frameIndex0 started0 w =
     bindE (recreateSwapChain
              \<lparr>lveSwapChain = None, commandBuffers = [], currentImageIndex = imageIndex0,
               currentFrameIndex = frameIndex0, isFrameStarted = started0\<rparr> w) (\<lambda>(this, w1).
     createCommandBuffers this w1)"

text \<open>\<^verbatim>\<open>beginFrame\<close> returns the command buffer, or the null pointer (\<open>0\<close>).\<close>

definition beginFrame :: "LveRenderer \<Rightarrow> world \<Rightarrow> fault + (handle \<times> LveRenderer \<times> world)" where
  "beginFrame this w =
     bindE (assert (\<not> isFrameStarted this)
              ''Can't call beginFrame while already in progress'') (\<lambda>_.
     bindE (deref (lveSwapChain this)) (\<lambda>chain.
     bindE (acquireNextImage chain (currentImageIndex this) w) (\<lambda>((result, imageIndex), w1).
     let this = this\<lparr>currentImageIndex := imageIndex\<rparr> in
     if result = VK_ERROR_OUT_OF_DATE_KHR then
       bindE (recreateSwapChain this w1) (\<lambda>(this, w2). Inr (VK_NULL_HANDLE, this, w2))
     else if result \<noteq> VK_SUCCESS \<and> result \<noteq> VK_SUBOPTIMAL_KHR then
       throw ''failed to acquire swap chain image!''
     else
       let this = this\<lparr>isFrameStarted := True\<rparr> in
       bindE (getCurrentCommandBuffer this) (\<lambda>commandBuffer.
       case api (vkBeginCommandBuffer commandBuffer) w1 of (r, w2) \<Rightarrow>
         if r \<noteq> VK_SUCCESS then throw ''failed to begin recording command buffer!''
         else Inr (commandBuffer, this, w2)))))"

definition INT_MAX :: int where
  "INT_MAX = 2147483647"

text \<open>
  \<^verbatim>\<open>endFrame\<close>. The last statement is \<^verbatim>\<open>int\<close> arithmetic: the sum is undefined past
  \<open>INT_MAX\<close> and \<^verbatim>\<open>%\<close> truncates towards zero, which is \<open>smod\<close>.
\<close>

definition endFrame :: "LveRenderer \<Rightarrow> world \<Rightarrow> fault + (LveRenderer \<times> world)" where
  "endFrame this w =
     bindE (assert (isFrameStarted this)
              ''Can't call endFrame while frame is not in progress'') (\<lambda>_.
     bindE (getCurrentCommandBuffer this) (\<lambda>commandBuffer.
     case api (vkEndCommandBuffer commandBuffer) w of (r, w1) \<Rightarrow>
       if r \<noteq> VK_SUCCESS then throw ''failed to record command buffer!''
       else
         bindE (deref (lveSwapChain this)) (\<lambda>chain.
         bindE (submitCommandBuffers chain commandBuffer (currentImageIndex this) w1)
           (\<lambda>((result, chain), w2).
         let this = this\<lparr>lveSwapChain := Some chain\<rparr> in
         bindE (if result = VK_ERROR_OUT_OF_DATE_KHR \<or> result = VK_SUBOPTIMAL_KHR \<or>
                   wasWindowResized w2
                then recreateSwapChain this (resetWindowResizedFlag w2)
                else if result \<noteq> VK_SUCCESS then throw ''failed to present swap chain image!''
                else Inr (this, w2)) (\<lambda>(this, w3).
         let this = this\<lparr>isFrameStarted := False\<rparr> in
         if currentFrameIndex this = INT_MAX then Inl SignedOverflow
         else Inr (this\<lparr>currentFrameIndex :=
                          (currentFrameIndex this + 1) smod int MAX_FRAMES_IN_FLIGHT\<rparr>, w3))))))"

definition getFrameBuffer :: "LveSwapChain \<Rightarrow> uint32_t \<Rightarrow> fault + handle" where
  "getFrameBuffer this index = element_at (swapChainFramebuffers this) (unat index)"

definition beginSwapChainRenderPass :: "LveRenderer \<Rightarrow> handle \<Rightarrow> world \<Rightarrow> fault + world" where
  "beginSwapChainRenderPass this commandBuffer w =
     bindE (assert (isFrameStarted this)
              ''Can't call beginSwapChainRenderPass if frame is not in progress'') (\<lambda>_.
     bindE (getCurrentCommandBuffer this) (\<lambda>current.
     bindE (assert (commandBuffer = current)
              ''Can't begin render pass on command buffer from a different frame'') (\<lambda>_.
     bindE (deref (lveSwapChain this)) (\<lambda>chain.
     bindE (getFrameBuffer chain (currentImageIndex this)) (\<lambda>framebuffer.
     let w1 = snd (api (vkCmdBeginRenderPass commandBuffer (renderPass chain) framebuffer
                          (swapChainExtent chain)) w);
         w2 = snd (api (vkCmdSetViewport commandBuffer) w1);
         w3 = snd (api (vkCmdSetScissor commandBuffer (swapChainExtent chain)) w2)
     in Inr w3)))))"

definition endSwapChainRenderPass :: "LveRenderer \<Rightarrow> handle \<Rightarrow> world \<Rightarrow> fault + world" where
  "endSwapChainRenderPass this commandBuffer w =
     bindE (assert (isFrameStarted this)
              ''Can't call endSwapChainRenderPass if frame is not in progress'') (\<lambda>_.
     bindE (getCurrentCommandBuffer this) (\<lambda>current.
     bindE (assert (commandBuffer = current)
              ''Can't end render pass on command buffer from a different frame'') (\<lambda>_.
     Inr (snd (api (vkCmdEndRenderPass commandBuffer) w)))))"

section \<open>The faults of a construction\<close>

text \<open>
  The faults a construction can end with: a subscript outside a vector, or one of the
  errors thrown by the creation steps.
\<close>

definition construction_fault :: "fault \<Rightarrow> bool" where
  "construction_fault e \<longleftrightarrow>
     e = OutOfRange \<or>
     e \<in> RuntimeError ` {''failed to create swap chain!'',
       ''failed to create texture image view!'', ''failed to find supported format!'',
       ''failed to create render pass!'', ''failed to create image!'',
       ''failed to find suitable memory type!'', ''failed to allocate image memory!'',
       ''failed to bind image memory!'', ''failed to create framebuffer!'',
       ''failed to create synchronization objects for a frame!''}"

section \<open>Callers\<close>

text \<open>
  Modelled from the spec: no caller of the swap chain other than the renderer is among
  the sources. The specification speaks of a sequence of acquire/submit pairs on one swap
  chain: \<open>count\<close> times \<open>acquireNextImage\<close> and, with the image index it wrote,
  \<open>submitCommandBuffers\<close>. The sequence ends early when an acquire gives no image.
\<close>

primrec acquire_submit_pairs ::
  "nat \<Rightarrow> handle \<Rightarrow> LveSwapChain \<times> uint32_t \<times> world \<Rightarrow>
   fault + (LveSwapChain \<times> uint32_t \<times> world)" where
  "acquire_submit_pairs 0 buffer s = Inr s"
| "acquire_submit_pairs (Suc count) buffer s =
     (case s of (this, imageIndex, w) \<Rightarrow>
      bindE (acquireNextImage this imageIndex w) (\<lambda>((result, imageIndex), w1).
      if result = VK_SUCCESS \<or> result = VK_SUBOPTIMAL_KHR then
        bindE (submitCommandBuffers this buffer imageIndex w1) (\<lambda>((presented, this), w2).
        acquire_submit_pairs count buffer (this, imageIndex, w2))
      else Inr (this, imageIndex, w1)))"

text \<open>
  Modelled from the spec: \<^verbatim>\<open>FirstApp::run\<close> is declared in the sources, its body is not
  among them. The specification has the application ask for a frame, record inside a
  render-pass scope and hand the frame back. Here \<open>count\<close> rounds of that:
  \<open>beginFrame\<close> and, when it returns a command buffer, the render pass begun and ended
  on that buffer and \<open>endFrame\<close>. The first component of the result counts the frames
  completed.
\<close>

primrec frames ::
  "nat \<Rightarrow> LveRenderer \<times> world \<Rightarrow> fault + (nat \<times> LveRenderer \<times> world)" where
  "frames 0 s = Inr (0, s)"
| "frames (Suc count) s =
     (case s of (this, w) \<Rightarrow>
      bindE (beginFrame this w) (\<lambda>(commandBuffer, this, w1).
      if commandBuffer = VK_NULL_HANDLE then frames count (this, w1)
      else
        bindE (beginSwapChainRenderPass this commandBuffer w1) (\<lambda>w2.
        bindE (endSwapChainRenderPass this commandBuffer w2) (\<lambda>w3.
        bindE (endFrame this w3) (\<lambda>(this, w4).
        bindE (frames count (this, w4)) (\<lambda>(completed, s'). Inr (Suc completed, s')))))))"

section \<open>The reuse of images, as the specification words it\<close>

text \<open>
  The specification asks that no image is reused by a new slot before the fence recorded
  for it was observed signaled. Read off the calls alone: \<open>owner\<close> is, per image index,
  the fence of the last submission presented with that index (null when there was none);
  \<open>observed\<close> are the fences waited for since the last presentation; \<open>submitted\<close> is the
  fence of a submission not yet presented, with the fences that had been waited for when
  it was made. A presentation of image \<open>i\<close> is a violation (\<open>None\<close>) unless the owner of
  \<open>i\<close> is null or had been waited for before the submission.
\<close>

record monitor =
  owner :: "uint32_t \<Rightarrow> handle"
  observed :: "handle set"
  submitted :: "(handle \<times> handle set) option"

fun watch :: "api_call \<Rightarrow> monitor \<Rightarrow> monitor option" where
  "watch (vkWaitForFences f) m = Some (m\<lparr>observed := insert f (observed m)\<rparr>)"
| "watch (vkQueueSubmit q waited stage buffer signaled f) m =
     Some (m\<lparr>submitted := Some (f, observed m)\<rparr>)"
| "watch (vkQueuePresentKHR q waited chain i) m =
     (case submitted m of
        None \<Rightarrow> None
      | Some (f, seen) \<Rightarrow>
          if owner m i = VK_NULL_HANDLE \<or> owner m i \<in> seen
          then Some (m\<lparr>owner := (owner m)(i := f), observed := {}, submitted := None\<rparr>)
          else None)"
| "watch c m = Some m"

fun watch_all :: "api_call list \<Rightarrow> monitor \<Rightarrow> monitor option" where
  "watch_all [] m = Some m"
| "watch_all (c # cs) m = (case watch c m of None \<Rightarrow> None | Some m1 \<Rightarrow> watch_all cs m1)"

definition no_image_reused_unobserved :: "api_call list \<Rightarrow> bool" where
  "no_image_reused_unobserved cs \<longleftrightarrow>
     watch_all cs \<lparr>owner = (\<lambda>i. VK_NULL_HANDLE), observed = {}, submitted = None\<rparr> \<noteq> None"

text \<open>
  The monitor agrees with a swap chain when no submission awaits its presentation and
  the owner of every image index is the fence the in-flight map holds for it.
\<close>

definition owner_matches :: "LveSwapChain \<Rightarrow> monitor \<Rightarrow> bool" where
  "owner_matches this m \<longleftrightarrow>
     submitted m = None \<and>
     (\<forall>i. owner m i =
        (if unat i < length (imagesInFlight this) then imagesInFlight this ! unat i
         else VK_NULL_HANDLE))"

section \<open>A concrete implementation and window\<close>

text \<open>
  Every call succeeds; the surface wants between 2 and 3 images, leaves the extent to the
  window, offers the preferred format second and FIFO only; the implementation makes 3
  images and always acquires image 0; the window is 800 by 600.
\<close>

definition example_world :: world where
  "example_world = \<lparr>
     fence = (\<lambda>f. Unsignaled), calls = [], next_handle = 0,
     result_of = (\<lambda>k. VK_SUCCESS), acquired_index = (\<lambda>k. 0),
     surface_support = (\<lambda>k. \<lparr>
       capabilities = \<lparr>minImageCount = 2, maxImageCount = 3,
         currentExtent = \<lparr>width = 0xFFFFFFFF, height = 0xFFFFFFFF\<rparr>,
         minImageExtent = \<lparr>width = 1, height = 1\<rparr>,
         maxImageExtent = \<lparr>width = 4096, height = 4096\<rparr>\<rparr>,
       formats =
         [\<lparr>format = VK_FORMAT_B8G8R8A8_UNORM, colorSpace = VK_COLOR_SPACE_SRGB_NONLINEAR_KHR\<rparr>,
          \<lparr>format = VK_FORMAT_B8G8R8A8_SRGB, colorSpace = VK_COLOR_SPACE_SRGB_NONLINEAR_KHR\<rparr>],
       presentModes = [VK_PRESENT_MODE_FIFO_KHR]\<rparr>),
     image_count = (\<lambda>k. 3),
     queue_families = \<lparr>graphicsFamily = 0, presentFamily = 0\<rparr>,
     format_properties = (\<lambda>f. \<lparr>linearTilingFeatures = 0, optimalTilingFeatures = 0x200\<rparr>),
     memoryTypeBits = 1, memoryTypes = [1],
     win_width = 800, win_height = 600, framebufferResized = False, events = []\<rparr>"

text \<open>
  The same, except that the call made when 30 calls have been made reports a lost
  device. A swap chain built first makes calls 0 to 28; a submission after that resets the
  fence with call 29 and submits with call 30.
\<close>

definition submit_fails_world :: world where
  "submit_fails_world =
     example_world\<lparr>result_of := (\<lambda>k. if k = 30 then VK_ERROR_DEVICE_LOST else VK_SUCCESS)\<rparr>"

text \<open>The same, except that the images are acquired in turn rather than always image 0.\<close>

definition cycling_world :: world where
  "cycling_world = example_world\<lparr>acquired_index := (\<lambda>k. of_nat (k mod 3))\<rparr>"


text \<open>The same, except that the window has been resized.\<close>

definition resized_world :: world where
  "resized_world = example_world\<lparr>framebufferResized := True\<rparr>"

text \<open>
  The renderer that \<open>LveRenderer_new 0 0 False\<close> builds in \<open>example_world\<close>, and that
  world with every fence signaled and 28 handles handed out, as it is once the renderer
  is built (the calls made so far left out).
\<close>

definition example_renderer :: LveRenderer where
  "example_renderer = \<lparr>
     lveSwapChain = Some \<lparr>
       swapChainImageFormat = VK_FORMAT_B8G8R8A8_SRGB,
       swapChainDepthFormat = VK_FORMAT_D32_SFLOAT,
       swapChainExtent = \<lparr>width = 800, height = 600\<rparr>,
       swapChainFramebuffers = [18, 19, 20], renderPass = 8,
       depthImages = [9, 12, 15], depthImageMemorys = [10, 13, 16],
       depthImageViews = [11, 14, 17], swapChainImages = [2, 3, 4],
       swapChainImageViews = [5, 6, 7],
       windowExtent = \<lparr>width = 800, height = 600\<rparr>, swapChain = 1,
       imageAvailableSemaphores = [21, 24],
       renderFinishedSemaphores = [22, 25], inFlightFences = [23, 26],
       imagesInFlight = [0, 0, 0], currentFrame = 0, oldSwapChain = None\<rparr>,
     commandBuffers = [27, 28], currentImageIndex = 0, currentFrameIndex = 0,
     isFrameStarted = False\<rparr>"

definition running_world :: world where
  "running_world = example_world\<lparr>fence := (\<lambda>f. Signaled), next_handle := 28\<rparr>"

text \<open>
  The same, except that the second call made reports a suboptimal swap chain. A frame
  begun there waits for the slot's fence with the first call and acquires with the second.
\<close>

definition suboptimal_acquire_world :: world where
  "suboptimal_acquire_world =
     running_world\<lparr>result_of := (\<lambda>k. if k = 1 then VK_SUBOPTIMAL_KHR else VK_SUCCESS)\<rparr>"

section \<open>Lockstep, as the specification words it\<close>

text \<open>
  The frame-slot index of the renderer and the frame index of its swap chain are equal.
\<close>

definition lockstep :: "LveRenderer \<Rightarrow> bool" where
  "lockstep this \<longleftrightarrow>
     (case lveSwapChain this of
        None \<Rightarrow> False
      | Some chain \<Rightarrow> currentFrameIndex this = int (unat (currentFrame chain)))"

section \<open>Reconstruction, as the specification words it\<close>

text \<open>
  A swap chain is constructed with one call of \<open>vkCreateSwapchainKHR\<close>, and nothing
  else makes that call: the swap chain was rebuilt while the calls \<open>cs\<close> were made
  exactly when one of them is a \<open>vkCreateSwapchainKHR\<close>.
\<close>

fun creates_swap_chain :: "api_call \<Rightarrow> bool" where
  "creates_swap_chain (vkCreateSwapchainKHR createInfo) = True"
| "creates_swap_chain c = False"

definition rebuilt_during :: "api_call list \<Rightarrow> bool" where
  "rebuilt_during cs \<longleftrightarrow> list_ex creates_swap_chain cs"

section \<open>Reasoning about faults, vectors and loops\<close>

lemma bindE_Inl [simp]: "bindE (Inl e) f = Inl e"
  by (simp add: bindE_def)

lemma bindE_Inr [simp]: "bindE (Inr x) f = f x"
  by (simp add: bindE_def)

lemma bindE_eq_Inr: "bindE m f = Inr y \<longleftrightarrow> (\<exists>x. m = Inr x \<and> f x = Inr y)"
  by (cases m) auto

lemma throw_not_Inr [simp]: "throw message \<noteq> Inr x"
  by (simp add: throw_def)

lemma element_at_eq_Inr: "element_at v i = Inr x \<longleftrightarrow> i < length v \<and> x = v ! i"
  by (auto simp: element_at_def)

lemma length_resize [simp]: "length (resize n x v) = n"
  by (simp add: resize_def)

lemma assert_eq_Inr: "assert condition message = Inr u \<longleftrightarrow> condition"
  by (simp add: assert_def)

lemma for_loop_invariant:
  assumes "for_loop first count body s = Inr s'"
    and "P s"
    and "\<And>i t t'. P t \<Longrightarrow> body i t = Inr t' \<Longrightarrow> P t'"
  shows "P s'"
  using assms(1,2)
proof (induction count arbitrary: first s)
  case 0
  then show ?case by simp
next
  case (Suc count)
  from Suc.prems(1) obtain t where t: "body first s = Inr t"
    and rest: "for_loop (Suc first) count body t = Inr s'"
    by (auto simp: bindE_eq_Inr)
  from assms(3) [OF Suc.prems(2) t] have "P t" .
  with Suc.IH rest show ?case by blast
qed

section \<open>What a successful construction leaves behind\<close>

lemma create_eq_Inr:
  "create c message w = Inr (h, w') \<longleftrightarrow>
     result_of w (length (calls w)) = VK_SUCCESS \<and> h = Suc (next_handle w) \<and>
     w' = w\<lparr>calls := calls w @ [c], next_handle := Suc (next_handle w)\<rparr>"
  by (auto simp: create_def api_def fresh_def throw_def)

lemma createSwapChain_Inr:
  assumes "createSwapChain this w = Inr (sc, w')"
  shows "sc\<lparr>swapChain := swapChain this, swapChainImages := swapChainImages this,
            swapChainImageFormat := swapChainImageFormat this,
            swapChainExtent := swapChainExtent this\<rparr> = this"
    and "length (swapChainImages sc) = unat (image_count w (length (calls w) + 2))"
  using assms
  by (auto simp: createSwapChain_def getSwapChainSupport_def bindE_eq_Inr Let_def
        getSwapchainImages_def fresh_many_def api_def create_eq_Inr
        split: prod.splits)

lemma createImageViews_Inr:
  assumes "createImageViews this w = Inr (sc, w')"
  shows "sc\<lparr>swapChainImageViews := swapChainImageViews this\<rparr> = this"
    and "length (swapChainImageViews sc) = length (swapChainImages this)"
proof -
  let ?P = "\<lambda>(t, u :: world). t\<lparr>swapChainImageViews := swapChainImageViews this\<rparr> = this \<and>
              length (swapChainImageViews t) = length (swapChainImages this)"
  have "?P (sc, w')"
    using assms unfolding createImageViews_def
    apply (elim for_loop_invariant [where P = ?P])
     apply simp
    apply (auto simp: createImageViews_body_def bindE_eq_Inr split: prod.splits)
    done
  then show "sc\<lparr>swapChainImageViews := swapChainImageViews this\<rparr> = this"
    and "length (swapChainImageViews sc) = length (swapChainImages this)" by auto
qed

lemma createRenderPass_Inr:
  assumes "createRenderPass this w = Inr (sc, w')"
  shows "sc\<lparr>renderPass := renderPass this\<rparr> = this"
  using assms
  by (auto simp: createRenderPass_def bindE_eq_Inr create_eq_Inr)

lemma createDepthResources_Inr:
  assumes "createDepthResources this w = Inr (sc, w')"
  shows "sc\<lparr>swapChainDepthFormat := swapChainDepthFormat this,
            depthImages := depthImages this,
            depthImageMemorys := depthImageMemorys this,
            depthImageViews := depthImageViews this\<rparr> = this"
    and "length (depthImages sc) = imageCount this"
    and "length (depthImageViews sc) = imageCount this"
    and "findDepthFormat w = Inr (swapChainDepthFormat sc)"
proof -
  from assms obtain depthFormat where df: "findDepthFormat w = Inr depthFormat"
    by (auto simp: createDepthResources_def bindE_eq_Inr)
  let ?P = "\<lambda>(t, u :: world).
              t\<lparr>swapChainDepthFormat := swapChainDepthFormat this,
                depthImages := depthImages this,
                depthImageMemorys := depthImageMemorys this,
                depthImageViews := depthImageViews this\<rparr> = this \<and>
              swapChainDepthFormat t = depthFormat \<and>
              length (depthImages t) = imageCount this \<and>
              length (depthImageViews t) = imageCount this"
  have "for_loop 0 (imageCount this)
          (createDepthResources_body (swapChainExtent this) depthFormat)
          (this\<lparr>swapChainDepthFormat := depthFormat,
                 depthImages := resize (imageCount this) VK_NULL_HANDLE (depthImages this),
                 depthImageMemorys :=
                   resize (imageCount this) VK_NULL_HANDLE (depthImageMemorys this),
                 depthImageViews :=
                   resize (imageCount this) VK_NULL_HANDLE (depthImageViews this)\<rparr>, w)
        = Inr (sc, w')"
    using assms df by (simp add: createDepthResources_def Let_def imageCount_def)
  then have "?P (sc, w')"
    apply (elim for_loop_invariant [where P = ?P])
     apply (simp add: imageCount_def)
    apply (auto simp: createDepthResources_body_def bindE_eq_Inr Let_def split: prod.splits)
    done
  then show "sc\<lparr>swapChainDepthFormat := swapChainDepthFormat this,
            depthImages := depthImages this,
            depthImageMemorys := depthImageMemorys this,
            depthImageViews := depthImageViews this\<rparr> = this"
    and "length (depthImages sc) = imageCount this"
    and "length (depthImageViews sc) = imageCount this"
    and "findDepthFormat w = Inr (swapChainDepthFormat sc)"
    using df by auto
qed

lemma createFramebuffers_Inr:
  assumes "createFramebuffers this w = Inr (sc, w')"
  shows "sc\<lparr>swapChainFramebuffers := swapChainFramebuffers this\<rparr> = this"
    and "length (swapChainFramebuffers sc) = imageCount this"
proof -
  let ?P = "\<lambda>(t, u :: world). t\<lparr>swapChainFramebuffers := swapChainFramebuffers this\<rparr> = this \<and>
              length (swapChainFramebuffers t) = imageCount this"
  have "?P (sc, w')"
    using assms unfolding createFramebuffers_def
    apply (elim for_loop_invariant [where P = ?P])
     apply simp
    apply (auto simp: createFramebuffers_body_def bindE_eq_Inr split: prod.splits)
    done
  then show "sc\<lparr>swapChainFramebuffers := swapChainFramebuffers this\<rparr> = this"
    and "length (swapChainFramebuffers sc) = imageCount this" by auto
qed

lemma createSyncObjects_Inr:
  assumes "createSyncObjects this w = Inr (sc, w')"
  shows "sc\<lparr>imageAvailableSemaphores := imageAvailableSemaphores this,
            renderFinishedSemaphores := renderFinishedSemaphores this,
            inFlightFences := inFlightFences this,
            imagesInFlight := imagesInFlight this\<rparr> = this"
    and "imagesInFlight sc = resize (imageCount this) VK_NULL_HANDLE (imagesInFlight this)"
    and "length (imageAvailableSemaphores sc) = MAX_FRAMES_IN_FLIGHT"
    and "length (renderFinishedSemaphores sc) = MAX_FRAMES_IN_FLIGHT"
    and "length (inFlightFences sc) = MAX_FRAMES_IN_FLIGHT"
proof -
  let ?P = "\<lambda>(t, u :: world).
              t\<lparr>imageAvailableSemaphores := imageAvailableSemaphores this,
                renderFinishedSemaphores := renderFinishedSemaphores this,
                inFlightFences := inFlightFences this,
                imagesInFlight := imagesInFlight this\<rparr> = this \<and>
              imagesInFlight t = resize (imageCount this) VK_NULL_HANDLE (imagesInFlight this) \<and>
              length (imageAvailableSemaphores t) = MAX_FRAMES_IN_FLIGHT \<and>
              length (renderFinishedSemaphores t) = MAX_FRAMES_IN_FLIGHT \<and>
              length (inFlightFences t) = MAX_FRAMES_IN_FLIGHT"
  have "?P (sc, w')"
    using assms unfolding createSyncObjects_def
    apply (elim for_loop_invariant [where P = ?P])
     apply simp
    apply (auto simp: createSyncObjects_body_def bindE_eq_Inr split: prod.splits)
    done
  then show "sc\<lparr>imageAvailableSemaphores := imageAvailableSemaphores this,
            renderFinishedSemaphores := renderFinishedSemaphores this,
            inFlightFences := inFlightFences this,
            imagesInFlight := imagesInFlight this\<rparr> = this"
    and "imagesInFlight sc = resize (imageCount this) VK_NULL_HANDLE (imagesInFlight this)"
    and "length (imageAvailableSemaphores sc) = MAX_FRAMES_IN_FLIGHT"
    and "length (renderFinishedSemaphores sc) = MAX_FRAMES_IN_FLIGHT"
    and "length (inFlightFences sc) = MAX_FRAMES_IN_FLIGHT"
    by auto
qed

lemma init_Inr:
  assumes "init this w = Inr (sc, w')"
  shows "length (swapChainImages sc) = unat (image_count w (length (calls w) + 2))"
    and "length (swapChainImageViews sc) = length (swapChainImages sc)"
    and "length (depthImages sc) = length (swapChainImages sc)"
    and "length (depthImageViews sc) = length (swapChainImages sc)"
    and "length (swapChainFramebuffers sc) = length (swapChainImages sc)"
    and "imagesInFlight sc =
           resize (length (swapChainImages sc)) VK_NULL_HANDLE (imagesInFlight this)"
    and "length (imageAvailableSemaphores sc) = MAX_FRAMES_IN_FLIGHT"
    and "length (renderFinishedSemaphores sc) = MAX_FRAMES_IN_FLIGHT"
    and "length (inFlightFences sc) = MAX_FRAMES_IN_FLIGHT"
    and "currentFrame sc = currentFrame this"
    and "oldSwapChain sc = oldSwapChain this"
    and "windowExtent sc = windowExtent this"
proof -
  from assms obtain s1 w1 s2 w2 s3 w3 s4 w4 s5 w5 where
    c1: "createSwapChain this w = Inr (s1, w1)" and
    c2: "createImageViews s1 w1 = Inr (s2, w2)" and
    c3: "createRenderPass s2 w2 = Inr (s3, w3)" and
    c4: "createDepthResources s3 w3 = Inr (s4, w4)" and
    c5: "createFramebuffers s4 w4 = Inr (s5, w5)" and
    c6: "createSyncObjects s5 w5 = Inr (sc, w')"
    by (auto simp: init_def bindE_eq_Inr)
  note e1 = createSwapChain_Inr [OF c1]
  note e2 = createImageViews_Inr [OF c2]
  note e3 = createRenderPass_Inr [OF c3]
  note e4 = createDepthResources_Inr [OF c4]
  note e5 = createFramebuffers_Inr [OF c5]
  note e6 = createSyncObjects_Inr [OF c6]
  have images: "swapChainImages sc = swapChainImages s1"
    using arg_cong [OF e2(1), of swapChainImages] arg_cong [OF e3, of swapChainImages]
      arg_cong [OF e4(1), of swapChainImages] arg_cong [OF e5(1), of swapChainImages]
      arg_cong [OF e6(1), of swapChainImages]
    by simp
  show "length (swapChainImages sc) = unat (image_count w (length (calls w) + 2))"
    using images e1(2) by simp
  show "length (swapChainImageViews sc) = length (swapChainImages sc)"
    using images e2(2) arg_cong [OF e3, of swapChainImageViews]
      arg_cong [OF e4(1), of swapChainImageViews] arg_cong [OF e5(1), of swapChainImageViews]
      arg_cong [OF e6(1), of swapChainImageViews]
    by simp
  have count4: "imageCount s3 = length (swapChainImages s1)"
    using arg_cong [OF e2(1), of swapChainImages] arg_cong [OF e3, of swapChainImages]
    by (simp add: imageCount_def)
  have count5: "imageCount s4 = length (swapChainImages s1)"
    using count4 arg_cong [OF e4(1), of swapChainImages] by (simp add: imageCount_def)
  have count6: "imageCount s5 = length (swapChainImages s1)"
    using count5 arg_cong [OF e5(1), of swapChainImages] by (simp add: imageCount_def)
  show "length (depthImages sc) = length (swapChainImages sc)"
    using images e4(2) count4 arg_cong [OF e5(1), of depthImages]
      arg_cong [OF e6(1), of depthImages]
    by simp
  show "length (depthImageViews sc) = length (swapChainImages sc)"
    using images e4(3) count4 arg_cong [OF e5(1), of depthImageViews]
      arg_cong [OF e6(1), of depthImageViews]
    by simp
  show "length (swapChainFramebuffers sc) = length (swapChainImages sc)"
    using images e5(2) count5 arg_cong [OF e6(1), of swapChainFramebuffers]
    by simp
  show "imagesInFlight sc =
           resize (length (swapChainImages sc)) VK_NULL_HANDLE (imagesInFlight this)"
    using images e6(2) count6
      arg_cong [OF e1(1), of imagesInFlight] arg_cong [OF e2(1), of imagesInFlight]
      arg_cong [OF e3, of imagesInFlight] arg_cong [OF e4(1), of imagesInFlight]
      arg_cong [OF e5(1), of imagesInFlight]
    by simp
  show "length (imageAvailableSemaphores sc) = MAX_FRAMES_IN_FLIGHT"
    and "length (renderFinishedSemaphores sc) = MAX_FRAMES_IN_FLIGHT"
    and "length (inFlightFences sc) = MAX_FRAMES_IN_FLIGHT"
    using e6 by simp_all
  show "currentFrame sc = currentFrame this"
    using arg_cong [OF e1(1), of currentFrame] arg_cong [OF e2(1), of currentFrame]
      arg_cong [OF e3, of currentFrame] arg_cong [OF e4(1), of currentFrame]
      arg_cong [OF e5(1), of currentFrame] arg_cong [OF e6(1), of currentFrame]
    by simp
  show "oldSwapChain sc = oldSwapChain this"
    using arg_cong [OF e1(1), of oldSwapChain] arg_cong [OF e2(1), of oldSwapChain]
      arg_cong [OF e3, of oldSwapChain] arg_cong [OF e4(1), of oldSwapChain]
      arg_cong [OF e5(1), of oldSwapChain] arg_cong [OF e6(1), of oldSwapChain]
    by simp
  show "windowExtent sc = windowExtent this"
    using arg_cong [OF e1(1), of windowExtent] arg_cong [OF e2(1), of windowExtent]
      arg_cong [OF e3, of windowExtent] arg_cong [OF e4(1), of windowExtent]
      arg_cong [OF e5(1), of windowExtent] arg_cong [OF e6(1), of windowExtent]
    by simp
qed

section \<open>How a construction can fail\<close>

lemma bindE_eq_Inl: "bindE m f = Inl e \<longleftrightarrow> m = Inl e \<or> (\<exists>x. m = Inr x \<and> f x = Inl e)"
  by (cases m) auto

lemma for_loop_Inl:
  "for_loop first count body s = Inl e \<Longrightarrow> \<exists>i t. body i t = Inl e"
  by (induction count arbitrary: first s) (auto simp: bindE_eq_Inl)

lemma create_Inl: "create c message w = Inl e \<Longrightarrow> e = RuntimeError message"
  by (auto simp: create_def throw_def split: prod.splits if_splits)

lemma element_at_Inl: "element_at v i = Inl e \<Longrightarrow> e = OutOfRange"
  by (auto simp: element_at_def split: if_splits)

lemma findSupportedFormat_Inl:
  "findSupportedFormat w candidates tiling features = Inl e \<Longrightarrow>
     e = RuntimeError ''failed to find supported format!''"
  by (induction candidates) (auto simp: throw_def Let_def split: if_splits)

lemma findMemoryType_loop_Inl:
  "findMemoryType_loop typeFilter properties i flags = Inl e \<Longrightarrow>
     e = RuntimeError ''failed to find suitable memory type!''"
  by (induction flags arbitrary: i) (auto simp: throw_def split: if_splits)

lemma construction_fault_simps [simp]:
  "construction_fault OutOfRange"
  "construction_fault (RuntimeError ''failed to create swap chain!'')"
  "construction_fault (RuntimeError ''failed to create texture image view!'')"
  "construction_fault (RuntimeError ''failed to find supported format!'')"
  "construction_fault (RuntimeError ''failed to create render pass!'')"
  "construction_fault (RuntimeError ''failed to create image!'')"
  "construction_fault (RuntimeError ''failed to find suitable memory type!'')"
  "construction_fault (RuntimeError ''failed to allocate image memory!'')"
  "construction_fault (RuntimeError ''failed to bind image memory!'')"
  "construction_fault (RuntimeError ''failed to create framebuffer!'')"
  "construction_fault (RuntimeError ''failed to create synchronization objects for a frame!'')"
  by (simp_all add: construction_fault_def)

lemma findDepthFormat_Inl: "findDepthFormat w = Inl e \<Longrightarrow> construction_fault e"
  unfolding findDepthFormat_def by (drule findSupportedFormat_Inl) simp

lemma findMemoryType_Inl:
  "findMemoryType w typeFilter properties = Inl e \<Longrightarrow> construction_fault e"
  unfolding findMemoryType_def by (drule findMemoryType_loop_Inl) simp

lemma createImageWithInfo_Inl:
  "createImageWithInfo extent imageFormat properties w = Inl e \<Longrightarrow> construction_fault e"
  by (auto simp: createImageWithInfo_def bindE_eq_Inl api_def throw_def
        dest!: create_Inl findMemoryType_Inl split: if_splits)

lemma createSwapChain_Inl: "createSwapChain this w = Inl e \<Longrightarrow> construction_fault e"
  by (auto simp: createSwapChain_def bindE_eq_Inl Let_def chooseSwapSurfaceFormat_def
        getSwapChainSupport_def getSwapchainImages_def fresh_many_def
        dest!: create_Inl element_at_Inl split: option.splits)

lemma createImageViews_Inl: "createImageViews this w = Inl e \<Longrightarrow> construction_fault e"
  by (auto simp: createImageViews_def createImageViews_body_def bindE_eq_Inl
        dest!: for_loop_Inl create_Inl element_at_Inl)

lemma createRenderPass_Inl: "createRenderPass this w = Inl e \<Longrightarrow> construction_fault e"
  by (auto simp: createRenderPass_def bindE_eq_Inl
        dest!: create_Inl findDepthFormat_Inl)

lemma createDepthResources_Inl: "createDepthResources this w = Inl e \<Longrightarrow> construction_fault e"
  by (auto simp: createDepthResources_def createDepthResources_body_def
        bindE_eq_Inl Let_def
        dest!: for_loop_Inl findDepthFormat_Inl createImageWithInfo_Inl create_Inl)

lemma createFramebuffers_Inl: "createFramebuffers this w = Inl e \<Longrightarrow> construction_fault e"
  by (auto simp: createFramebuffers_def createFramebuffers_body_def bindE_eq_Inl
        dest!: for_loop_Inl create_Inl element_at_Inl)

lemma createSyncObjects_Inl: "createSyncObjects this w = Inl e \<Longrightarrow> construction_fault e"
  by (auto simp: createSyncObjects_def createSyncObjects_body_def bindE_eq_Inl
        dest!: for_loop_Inl create_Inl)

lemma init_Inl: "init this w = Inl e \<Longrightarrow> construction_fault e"
  by (auto simp: init_def bindE_eq_Inl
        dest: createSwapChain_Inl createImageViews_Inl createRenderPass_Inl
          createDepthResources_Inl createFramebuffers_Inl createSyncObjects_Inl)

lemma wait_while_minimized_Inl:
  "wait_while_minimized extent w = Inl e \<Longrightarrow> e = NeverReturns"
proof (induction extent w rule: wait_while_minimized.induct)
  case (1 extent w)
  then show ?case
    by (subst (asm) (2) wait_while_minimized.simps)
       (auto simp: glfwWaitEvents_def split: if_splits sum.splits list.splits window_event.splits)
qed

lemma not_construction_fault_format_changed:
  "\<not> construction_fault (RuntimeError ''Swap chain image(or depth) format has changed!'')"
  by (simp add: construction_fault_def)

lemma LveSwapChain_recreate_Inl:
  "LveSwapChain_recreate extent previous w = Inl e \<Longrightarrow> construction_fault e"
  by (auto simp: LveSwapChain_recreate_def bindE_eq_Inl dest: init_Inl)

section \<open>Waiting, submitting\<close>

lemma wait_for_fence_eq_Inr:
  "wait_for_fence f w = Inr w1 \<longleftrightarrow>
     fence w f \<noteq> Unsignaled \<and>
     w1 = w\<lparr>fence := (fence w)(f := Signaled), calls := calls w @ [vkWaitForFences f]\<rparr>"
  by (cases "fence w f") (auto simp: wait_for_fence_def api_def fun_upd_idem)

lemma wait_for_fence_eq_Inl:
  "wait_for_fence f w = Inl e \<longleftrightarrow> fence w f = Unsignaled \<and> e = NeverReturns"
  by (cases "fence w f") (auto simp: wait_for_fence_def)

lemma submitCommandBuffers_steps_after_wait:
  assumes "unat imageIndex < length (imagesInFlight this)"
    and "unat (currentFrame this) < length (inFlightFences this)"
    and "unat (currentFrame this) < length (imageAvailableSemaphores this)"
    and "unat (currentFrame this) < length (renderFinishedSemaphores this)"
    and "(if imagesInFlight this ! unat imageIndex \<noteq> VK_NULL_HANDLE
          then wait_for_fence (imagesInFlight this ! unat imageIndex) w else Inr w) = Inr w1"
  shows "submitCommandBuffers_steps this buffer imageIndex w =
     (if result_of w1 (Suc (length (calls w1))) \<noteq> VK_SUCCESS
      then (Inl (RuntimeError ''failed to submit draw command buffer!''),
            w1\<lparr>fence := (fence w1)(inFlightFences this ! unat (currentFrame this) := Unsignaled),
               calls := calls w1 @
                 [vkResetFences (inFlightFences this ! unat (currentFrame this)),
                  vkQueueSubmit graphicsQueue
                    (imageAvailableSemaphores this ! unat (currentFrame this))
                    VK_PIPELINE_STAGE_COLOR_ATTACHMENT_OUTPUT_BIT buffer
                    (renderFinishedSemaphores this ! unat (currentFrame this))
                    (inFlightFences this ! unat (currentFrame this))]\<rparr>)
      else (Inr (result_of w1 (Suc (Suc (length (calls w1)))),
                 this\<lparr>imagesInFlight := (imagesInFlight this)
                          [unat imageIndex := inFlightFences this ! unat (currentFrame this)],
                       currentFrame := (currentFrame this + 1) mod 2\<rparr>),
            w1\<lparr>fence := (fence w1)(inFlightFences this ! unat (currentFrame this) := Pending),
               calls := calls w1 @
                 [vkResetFences (inFlightFences this ! unat (currentFrame this)),
                  vkQueueSubmit graphicsQueue
                    (imageAvailableSemaphores this ! unat (currentFrame this))
                    VK_PIPELINE_STAGE_COLOR_ATTACHMENT_OUTPUT_BIT buffer
                    (renderFinishedSemaphores this ! unat (currentFrame this))
                    (inFlightFences this ! unat (currentFrame this)),
                  vkQueuePresentKHR presentQueue
                    (renderFinishedSemaphores this ! unat (currentFrame this))
                    (swapChain this) imageIndex]\<rparr>))"
  using assms
  by (simp add: submitCommandBuffers_steps_def bindW_def element_at_def Let_def reset_fence_def
        api_def throw_def MAX_FRAMES_IN_FLIGHT_def)

lemma submitCommandBuffers_after_wait:
  assumes "unat imageIndex < length (imagesInFlight this)"
    and "unat (currentFrame this) < length (inFlightFences this)"
    and "unat (currentFrame this) < length (imageAvailableSemaphores this)"
    and "unat (currentFrame this) < length (renderFinishedSemaphores this)"
    and "(if imagesInFlight this ! unat imageIndex \<noteq> VK_NULL_HANDLE
          then wait_for_fence (imagesInFlight this ! unat imageIndex) w else Inr w) = Inr w1"
  shows "submitCommandBuffers this buffer imageIndex w =
     (if result_of w1 (Suc (length (calls w1))) \<noteq> VK_SUCCESS
      then Inl (RuntimeError ''failed to submit draw command buffer!'')
      else Inr ((result_of w1 (Suc (Suc (length (calls w1)))),
                 this\<lparr>imagesInFlight := (imagesInFlight this)
                          [unat imageIndex := inFlightFences this ! unat (currentFrame this)],
                       currentFrame := (currentFrame this + 1) mod 2\<rparr>),
                w1\<lparr>fence := (fence w1)(inFlightFences this ! unat (currentFrame this) := Pending),
                   calls := calls w1 @
                     [vkResetFences (inFlightFences this ! unat (currentFrame this)),
                      vkQueueSubmit graphicsQueue
                        (imageAvailableSemaphores this ! unat (currentFrame this))
                        VK_PIPELINE_STAGE_COLOR_ATTACHMENT_OUTPUT_BIT buffer
                        (renderFinishedSemaphores this ! unat (currentFrame this))
                        (inFlightFences this ! unat (currentFrame this)),
                      vkQueuePresentKHR presentQueue
                        (renderFinishedSemaphores this ! unat (currentFrame this))
                        (swapChain this) imageIndex]\<rparr>))"
  unfolding submitCommandBuffers_def submitCommandBuffers_steps_after_wait [OF assms]
  by simp

lemma submitCommandBuffers_Inr_waited:
  assumes "submitCommandBuffers this buffer imageIndex w = Inr returned"
  shows "unat imageIndex < length (imagesInFlight this)"
    and "unat (currentFrame this) < length (inFlightFences this)"
    and "unat (currentFrame this) < length (imageAvailableSemaphores this)"
    and "unat (currentFrame this) < length (renderFinishedSemaphores this)"
    and "\<exists>w1. (if imagesInFlight this ! unat imageIndex \<noteq> VK_NULL_HANDLE
               then wait_for_fence (imagesInFlight this ! unat imageIndex) w else Inr w) = Inr w1"
  using assms
  by (auto simp: submitCommandBuffers_def submitCommandBuffers_steps_def bindW_def
        element_at_def Let_def split: sum.splits if_splits prod.splits)

section \<open>Pairs of acquire and submit, watched\<close>

lemma acquireNextImage_eq_Inr:
  assumes "acquireNextImage this imageIndex w = Inr ((result, written), w1)"
  shows "unat (currentFrame this) < length (inFlightFences this)"
    and "fence w (inFlightFences this ! unat (currentFrame this)) \<noteq> Unsignaled"
    and "calls w1 = calls w @
           [vkWaitForFences (inFlightFences this ! unat (currentFrame this)),
            vkAcquireNextImageKHR (swapChain this)
              (imageAvailableSemaphores this ! unat (currentFrame this))]"
  using assms
  by (auto simp: acquireNextImage_def bindE_eq_Inr element_at_eq_Inr wait_for_fence_eq_Inr
        api_def Let_def)

lemma submitCommandBuffers_eq_Inr:
  assumes "submitCommandBuffers this buffer imageIndex w = Inr ((presented, chain), w')"
  shows "unat imageIndex < length (imagesInFlight this)"
    and "imagesInFlight this ! unat imageIndex \<noteq> VK_NULL_HANDLE \<Longrightarrow>
           fence w (imagesInFlight this ! unat imageIndex) \<noteq> Unsignaled"
    and "chain = this\<lparr>imagesInFlight := (imagesInFlight this)
                          [unat imageIndex := inFlightFences this ! unat (currentFrame this)],
                       currentFrame := (currentFrame this + 1) mod 2\<rparr>"
    and "calls w' = calls w @
           (if imagesInFlight this ! unat imageIndex \<noteq> VK_NULL_HANDLE
            then [vkWaitForFences (imagesInFlight this ! unat imageIndex)] else []) @
           [vkResetFences (inFlightFences this ! unat (currentFrame this)),
            vkQueueSubmit graphicsQueue
              (imageAvailableSemaphores this ! unat (currentFrame this))
              VK_PIPELINE_STAGE_COLOR_ATTACHMENT_OUTPUT_BIT buffer
              (renderFinishedSemaphores this ! unat (currentFrame this))
              (inFlightFences this ! unat (currentFrame this)),
            vkQueuePresentKHR presentQueue
              (renderFinishedSemaphores this ! unat (currentFrame this))
              (swapChain this) imageIndex]"
proof -
  note ranges = submitCommandBuffers_Inr_waited(1-4) [OF assms]
  from submitCommandBuffers_Inr_waited(5) [OF assms] obtain w1 where
    waited: "(if imagesInFlight this ! unat imageIndex \<noteq> VK_NULL_HANDLE
          then wait_for_fence (imagesInFlight this ! unat imageIndex) w else Inr w) = Inr w1"
    by blast
  note result = submitCommandBuffers_after_wait [OF ranges waited, of buffer]
  show "unat imageIndex < length (imagesInFlight this)" by fact
  show "fence w (imagesInFlight this ! unat imageIndex) \<noteq> Unsignaled"
    if "imagesInFlight this ! unat imageIndex \<noteq> VK_NULL_HANDLE"
    using that waited by (simp add: wait_for_fence_eq_Inr)
  show "chain = this\<lparr>imagesInFlight := (imagesInFlight this)
                          [unat imageIndex := inFlightFences this ! unat (currentFrame this)],
                       currentFrame := (currentFrame this + 1) mod 2\<rparr>"
    using assms result by (auto split: if_splits)
  show "calls w' = calls w @
           (if imagesInFlight this ! unat imageIndex \<noteq> VK_NULL_HANDLE
            then [vkWaitForFences (imagesInFlight this ! unat imageIndex)] else []) @
           [vkResetFences (inFlightFences this ! unat (currentFrame this)),
            vkQueueSubmit graphicsQueue
              (imageAvailableSemaphores this ! unat (currentFrame this))
              VK_PIPELINE_STAGE_COLOR_ATTACHMENT_OUTPUT_BIT buffer
              (renderFinishedSemaphores this ! unat (currentFrame this))
              (inFlightFences this ! unat (currentFrame this)),
            vkQueuePresentKHR presentQueue
              (renderFinishedSemaphores this ! unat (currentFrame this))
              (swapChain this) imageIndex]"
    using assms result waited
    by (auto simp: wait_for_fence_eq_Inr split: if_splits)
qed

lemma watch_all_append:
  "watch_all (cs @ ds) m = (case watch_all cs m of None \<Rightarrow> None | Some m1 \<Rightarrow> watch_all ds m1)"
  by (induction cs arbitrary: m) (auto split: option.splits)

lemma pair_keeps_owner_matches:
  assumes "owner_matches this m"
    and "acquireNextImage this imageIndex w = Inr ((result, written), w1)"
    and "submitCommandBuffers this buffer written w1 = Inr ((presented, chain), w2)"
  shows "\<exists>new m'. calls w2 = calls w @ new \<and> watch_all new m = Some m' \<and>
           owner_matches chain m'"
proof -
  note a = acquireNextImage_eq_Inr [OF assms(2)]
  note s = submitCommandBuffers_eq_Inr [OF assms(3)]
  let ?slot = "inFlightFences this ! unat (currentFrame this)"
  let ?m' = "m\<lparr>owner := (owner m)(written := ?slot), observed := {}, submitted := None\<rparr>"
  have owned: "owner m written = imagesInFlight this ! unat written"
    using assms(1) s(1) by (simp add: owner_matches_def)
  have "watch_all
          ([vkWaitForFences ?slot,
            vkAcquireNextImageKHR (swapChain this)
              (imageAvailableSemaphores this ! unat (currentFrame this))] @
           (if imagesInFlight this ! unat written \<noteq> VK_NULL_HANDLE
            then [vkWaitForFences (imagesInFlight this ! unat written)] else []) @
           [vkResetFences ?slot,
            vkQueueSubmit graphicsQueue
              (imageAvailableSemaphores this ! unat (currentFrame this))
              VK_PIPELINE_STAGE_COLOR_ATTACHMENT_OUTPUT_BIT buffer
              (renderFinishedSemaphores this ! unat (currentFrame this)) ?slot,
            vkQueuePresentKHR presentQueue
              (renderFinishedSemaphores this ! unat (currentFrame this))
              (swapChain this) written]) m = Some ?m'"
    using owned by simp
  moreover have "owner_matches chain ?m'"
    using assms(1) s(1) unfolding s(3) owner_matches_def
    by (auto simp: nth_list_update word_unat_eq_iff)
  moreover have "calls w2 = calls w @
          ([vkWaitForFences ?slot,
            vkAcquireNextImageKHR (swapChain this)
              (imageAvailableSemaphores this ! unat (currentFrame this))] @
           (if imagesInFlight this ! unat written \<noteq> VK_NULL_HANDLE
            then [vkWaitForFences (imagesInFlight this ! unat written)] else []) @
           [vkResetFences ?slot,
            vkQueueSubmit graphicsQueue
              (imageAvailableSemaphores this ! unat (currentFrame this))
              VK_PIPELINE_STAGE_COLOR_ATTACHMENT_OUTPUT_BIT buffer
              (renderFinishedSemaphores this ! unat (currentFrame this)) ?slot,
            vkQueuePresentKHR presentQueue
              (renderFinishedSemaphores this ! unat (currentFrame this))
              (swapChain this) written])"
    using a(3) s(4) by simp
  ultimately show ?thesis by blast
qed

lemma pairs_keep_owner_matches:
  assumes "acquire_submit_pairs count buffer (this, imageIndex, w) = Inr (chain, written, w')"
    and "owner_matches this m"
  shows "\<exists>new m'. calls w' = calls w @ new \<and> watch_all new m = Some m' \<and>
           owner_matches chain m'"
  using assms
proof (induction count arbitrary: this imageIndex w m)
  case 0
  then show ?case by auto
next
  case (Suc count)
  from Suc.prems(1) obtain result index1 w1 where
    acquired: "acquireNextImage this imageIndex w = Inr ((result, index1), w1)"
    by (auto simp: bindE_eq_Inr)
  show ?case
  proof (cases "result = VK_SUCCESS \<or> result = VK_SUBOPTIMAL_KHR")
    case True
    with Suc.prems(1) acquired obtain presented chain1 w2 where
      submitted: "submitCommandBuffers this buffer index1 w1 = Inr ((presented, chain1), w2)"
      and rest: "acquire_submit_pairs count buffer (chain1, index1, w2) = Inr (chain, written, w')"
      by (auto simp: bindE_eq_Inr)
    from pair_keeps_owner_matches [OF Suc.prems(2) acquired submitted]
    obtain new1 m1 where one: "calls w2 = calls w @ new1" "watch_all new1 m = Some m1"
      "owner_matches chain1 m1"
      by blast
    from Suc.IH [OF rest one(3)]
    obtain new2 m2 where two: "calls w' = calls w2 @ new2" "watch_all new2 m1 = Some m2"
      "owner_matches chain m2"
      by blast
    from one two have "calls w' = calls w @ (new1 @ new2)"
      "watch_all (new1 @ new2) m = Some m2"
      by (simp_all add: watch_all_append)
    with two(3) show ?thesis by blast
  next
    case False
    with Suc.prems(1) acquired have same: "chain = this" "w' = w1"
      by auto
    note a = acquireNextImage_eq_Inr [OF acquired]
    have "watch_all [vkWaitForFences (inFlightFences this ! unat (currentFrame this)),
            vkAcquireNextImageKHR (swapChain this)
              (imageAvailableSemaphores this ! unat (currentFrame this))] m =
          Some (m\<lparr>observed := insert (inFlightFences this ! unat (currentFrame this))
                                 (observed m)\<rparr>)"
      by simp
    moreover have "owner_matches this
          (m\<lparr>observed := insert (inFlightFences this ! unat (currentFrame this))
                             (observed m)\<rparr>)"
      using Suc.prems(2) by (simp add: owner_matches_def)
    ultimately show ?thesis using a(3) same by blast
  qed
qed

section \<open>The calls made only grow\<close>

lemma calls_api [simp]: "calls (snd (api c w)) = calls w @ [c]"
  by (simp add: api_def)

lemma drop_calls_append:
  assumes "prefix a b" and "prefix b c"
  shows "drop (length a) c = drop (length a) b @ drop (length b) c"
proof -
  from assms obtain x y where "b = a @ x" "c = b @ y"
    by (auto simp: prefix_def)
  then show ?thesis by simp
qed

lemma rebuilt_during_append [simp]:
  "rebuilt_during (cs @ ds) \<longleftrightarrow> rebuilt_during cs \<or> rebuilt_during ds"
  by (simp add: rebuilt_during_def)

lemma create_prefix: "create c message w = Inr (h, w') \<Longrightarrow> prefix (calls w) (calls w')"
  by (auto simp: create_eq_Inr)

lemma for_loop_prefix:
  assumes "for_loop first count body (this, w) = Inr (sc, w')"
    and "\<And>i t u t' u'. body i (t, u) = Inr (t', u') \<Longrightarrow> prefix (calls u) (calls u')"
  shows "prefix (calls w) (calls w')"
proof -
  let ?P = "\<lambda>(t, u). prefix (calls w) (calls u)"
  have "?P (sc, w')"
    using assms(1)
  proof (elim for_loop_invariant [where P = ?P])
    show "?P (this, w)" by simp
  next
    fix i s s'
    assume "?P s" and "body i s = Inr s'"
    then show "?P s'"
      using assms(2) [of i "fst s" "snd s" "fst s'" "snd s'"]
      by (auto simp: split_def)
  qed
  then show ?thesis by simp
qed

lemma createSwapChain_calls:
  assumes "createSwapChain this w = Inr (sc, w')"
  shows "\<exists>createInfo chain.
           calls w' = calls w @
             [vkGetPhysicalDeviceSurfaceSupport, vkCreateSwapchainKHR createInfo,
              vkGetSwapchainImagesKHR chain, vkGetSwapchainImagesKHR chain] \<and>
           createInfo_minImageCount createInfo =
             requested_imageCount (capabilities (surface_support w (length (calls w))))"
  using assms
  by (auto simp: createSwapChain_def getSwapChainSupport_def bindE_eq_Inr Let_def
        getSwapchainImages_def fresh_many_def api_def create_eq_Inr
        split: prod.splits)

lemma createImageViews_prefix:
  "createImageViews this w = Inr (sc, w') \<Longrightarrow> prefix (calls w) (calls w')"
  unfolding createImageViews_def
  by (erule for_loop_prefix)
     (auto simp: createImageViews_body_def bindE_eq_Inr dest: create_prefix)

lemma createRenderPass_prefix:
  "createRenderPass this w = Inr (sc, w') \<Longrightarrow> prefix (calls w) (calls w')"
  by (auto simp: createRenderPass_def bindE_eq_Inr dest: create_prefix)

lemma createImageWithInfo_prefix:
  "createImageWithInfo extent imageFormat properties w = Inr (made, w') \<Longrightarrow>
     prefix (calls w) (calls w')"
  by (auto simp: createImageWithInfo_def bindE_eq_Inr create_eq_Inr api_def
        split: if_splits)

lemma createDepthResources_prefix:
  assumes "createDepthResources this w = Inr (sc, w')"
  shows "prefix (calls w) (calls w')"
proof -
  from assms obtain depthFormat n start where
    "for_loop 0 n
       (createDepthResources_body (swapChainExtent this) depthFormat) (start, w) = Inr (sc, w')"
    by (auto simp: createDepthResources_def bindE_eq_Inr Let_def)
  then show ?thesis
  proof (rule for_loop_prefix)
    fix i t u t' u'
    assume "createDepthResources_body (swapChainExtent this) depthFormat i (t, u) = Inr (t', u')"
    then obtain made u1 where "createImageWithInfo (swapChainExtent this) depthFormat
        VK_MEMORY_PROPERTY_DEVICE_LOCAL_BIT u = Inr (made, u1)"
      and "prefix (calls u1) (calls u')"
      by (auto simp: createDepthResources_body_def bindE_eq_Inr Let_def dest: create_prefix)
    with createImageWithInfo_prefix show "prefix (calls u) (calls u')"
      by (blast intro: prefix_order.trans)
  qed
qed

lemma createFramebuffers_prefix:
  "createFramebuffers this w = Inr (sc, w') \<Longrightarrow> prefix (calls w) (calls w')"
  unfolding createFramebuffers_def
  by (erule for_loop_prefix)
     (auto simp: createFramebuffers_body_def bindE_eq_Inr dest: create_prefix)

lemma createSyncObjects_prefix:
  "createSyncObjects this w = Inr (sc, w') \<Longrightarrow> prefix (calls w) (calls w')"
  unfolding createSyncObjects_def
  by (erule for_loop_prefix)
     (auto simp: createSyncObjects_body_def bindE_eq_Inr create_eq_Inr)

lemma init_calls:
  assumes "init this w = Inr (sc, w')"
  shows "\<exists>createInfo rest.
           calls w' = calls w @
             vkGetPhysicalDeviceSurfaceSupport # vkCreateSwapchainKHR createInfo # rest \<and>
           createInfo_minImageCount createInfo =
             requested_imageCount (capabilities (surface_support w (length (calls w))))"
proof -
  from assms obtain s1 w1 s2 w2 s3 w3 s4 w4 s5 w5 where
    c1: "createSwapChain this w = Inr (s1, w1)" and
    c2: "createImageViews s1 w1 = Inr (s2, w2)" and
    c3: "createRenderPass s2 w2 = Inr (s3, w3)" and
    c4: "createDepthResources s3 w3 = Inr (s4, w4)" and
    c5: "createFramebuffers s4 w4 = Inr (s5, w5)" and
    c6: "createSyncObjects s5 w5 = Inr (sc, w')"
    by (auto simp: init_def bindE_eq_Inr)
  from createImageViews_prefix [OF c2] createRenderPass_prefix [OF c3]
    createDepthResources_prefix [OF c4] createFramebuffers_prefix [OF c5]
    createSyncObjects_prefix [OF c6]
  have "prefix (calls w1) (calls w')"
    by (blast intro: prefix_order.trans)
  then obtain later where later: "calls w' = calls w1 @ later"
    by (auto simp: prefix_def)
  from createSwapChain_calls [OF c1] obtain createInfo chain where
    "calls w1 = calls w @
       [vkGetPhysicalDeviceSurfaceSupport, vkCreateSwapchainKHR createInfo,
        vkGetSwapchainImagesKHR chain, vkGetSwapchainImagesKHR chain]"
    and "createInfo_minImageCount createInfo =
       requested_imageCount (capabilities (surface_support w (length (calls w))))"
    by blast
  with later show ?thesis by simp
qed

lemma wait_while_minimized_calls:
  "wait_while_minimized extent w = Inr (extent', w1) \<Longrightarrow> calls w1 = calls w"
proof (induction extent w rule: wait_while_minimized.induct)
  case (1 extent w)
  show ?case
  proof (cases "width extent = 0 \<or> height extent = 0")
    case False
    with "1.prems" show ?thesis
      by (subst (asm) wait_while_minimized.simps) (simp del: wait_while_minimized.simps)
  next
    case True
    with "1.prems" obtain w0 where waited: "glfwWaitEvents w = Inr w0"
      and rest: "wait_while_minimized (getExtent w) w0 = Inr (extent', w1)"
      by (subst (asm) wait_while_minimized.simps)
         (auto split: sum.splits simp del: wait_while_minimized.simps)
    from "1.IH" [OF True waited rest] have "calls w1 = calls w0" .
    moreover from waited have "calls w0 = calls w"
      by (auto simp: glfwWaitEvents_def framebufferResizeCallback_def
            split: list.splits window_event.splits)
    ultimately show ?thesis by simp
  qed
qed

lemma recreateSwapChain_calls:
  assumes "recreateSwapChain this w = Inr (renewed, w')"
  shows "prefix (calls w) (calls w')"
    and "rebuilt_during (drop (length (calls w)) (calls w'))"
proof -
  from assms obtain extent w1 built w3 previous where
    waited: "wait_while_minimized (getExtent w) w = Inr (extent, w1)"
    and built: "init (members_before_init extent previous) (snd (api vkDeviceWaitIdle w1))
                  = Inr (built, w3)"
    and last: "prefix (calls w3) (calls w')"
    by (auto simp: recreateSwapChain_def bindE_eq_Inr Let_def LveSwapChain_new_def
          LveSwapChain_recreate_def LveSwapChain_destroy_def
          split: option.splits if_splits)
  from init_calls [OF built] wait_while_minimized_calls [OF waited]
  obtain createInfo rest where
    "calls w3 = calls w @ vkDeviceWaitIdle #
       vkGetPhysicalDeviceSurfaceSupport # vkCreateSwapchainKHR createInfo # rest"
    by auto
  with last show "prefix (calls w) (calls w')"
    and "rebuilt_during (drop (length (calls w)) (calls w'))"
    by (auto simp: prefix_def rebuilt_during_def)
qed

section \<open>Frames\<close>

lemma recreateSwapChain_eq_Inr:
  assumes "recreateSwapChain this w = Inr (next, w')"
  shows "\<exists>chain. next = this\<lparr>lveSwapChain := Some chain\<rparr> \<and> currentFrame chain = 0"
proof -
  from assms obtain extent w1 where
    body: "(case lveSwapChain this of
       None \<Rightarrow>
         bindE (LveSwapChain_new extent (snd (api vkDeviceWaitIdle w1))) (\<lambda>(new, w3).
         Inr (this\<lparr>lveSwapChain := Some new\<rparr>, w3))
     | Some oldChain \<Rightarrow>
         bindE (LveSwapChain_recreate extent
                  (Some (LveSwapChain_members.truncate oldChain))
                  (snd (api vkDeviceWaitIdle w1))) (\<lambda>(new, w3).
         if \<not> compareSwapFormats oldChain new
         then throw ''Swap chain image(or depth) format has changed!''
         else Inr (this\<lparr>lveSwapChain := Some new\<rparr>, LveSwapChain_destroy oldChain w3)))
      = Inr (next, w')"
    by (auto simp: recreateSwapChain_def bindE_eq_Inr Let_def)
  show ?thesis
  proof (cases "lveSwapChain this")
    case None
    with body obtain new w3 where
      new: "LveSwapChain_new extent (snd (api vkDeviceWaitIdle w1)) = Inr (new, w3)"
      and renewed: "next = this\<lparr>lveSwapChain := Some new\<rparr>"
      by (auto simp: bindE_eq_Inr)
    from new have "currentFrame new = 0"
      using init_Inr(10) [of "members_before_init extent None" _ new w3]
      by (simp add: LveSwapChain_new_def members_before_init_def)
    with renewed show ?thesis by blast
  next
    case (Some oldChain)
    with body obtain new w3 where
      new: "LveSwapChain_recreate extent (Some (LveSwapChain_members.truncate oldChain))
              (snd (api vkDeviceWaitIdle w1)) = Inr (new, w3)"
      and renewed: "next = this\<lparr>lveSwapChain := Some new\<rparr>"
      by (auto simp: bindE_eq_Inr split: if_splits)
    from new obtain built where
      built: "init (members_before_init extent (Some (LveSwapChain_members.truncate oldChain)))
                (snd (api vkDeviceWaitIdle w1)) = Inr (built, w3)"
      and "new = built\<lparr>oldSwapChain := None\<rparr>"
      by (auto simp: LveSwapChain_recreate_def bindE_eq_Inr)
    then have "currentFrame new = 0"
      using init_Inr(10) [OF built] by (simp add: members_before_init_def)
    with renewed show ?thesis by blast
  qed
qed

lemma smod_two: "k \<in> {0, 1} \<Longrightarrow> (k + 1) smod int MAX_FRAMES_IN_FLIGHT = (k + 1) mod 2"
  by (auto simp: signed_modulo_int_def MAX_FRAMES_IN_FLIGHT_def)

lemma beginFrame_eq_Inr:
  assumes "beginFrame this w = Inr (commandBuffer, next, w')"
  shows "currentFrameIndex next = currentFrameIndex this"
    and "commandBuffers next = commandBuffers this"
  using assms
  by (auto simp: beginFrame_def bindE_eq_Inr Let_def split_def api_def throw_def
        split: if_splits dest!: recreateSwapChain_eq_Inr)

lemma endFrame_eq_Inr:
  assumes "endFrame this w = Inr (next, w')"
  shows "currentFrameIndex next = (currentFrameIndex this + 1) smod int MAX_FRAMES_IN_FLIGHT"
    and "\<not> isFrameStarted next"
  using assms
  by (auto simp: endFrame_def bindE_eq_Inr Let_def split_def api_def throw_def
        split: if_splits dest!: recreateSwapChain_eq_Inr)

lemma frames_advance_index:
  assumes "frames count (this, w) = Inr (completed, next, w')"
    and "currentFrameIndex this \<in> {0, 1}"
  shows "currentFrameIndex next = (currentFrameIndex this + int completed) mod 2"
  using assms
proof (induction count arbitrary: this w completed)
  case 0
  then show ?case by auto
next
  case (Suc count)
  from Suc.prems(1) obtain commandBuffer this1 w1 where
    began: "beginFrame this w = Inr (commandBuffer, this1, w1)"
    by (auto simp: bindE_eq_Inr)
  note b = beginFrame_eq_Inr [OF began]
  show ?case
  proof (cases "commandBuffer = VK_NULL_HANDLE")
    case True
    with Suc.prems(1) began have "frames count (this1, w1) = Inr (completed, next, w')"
      by simp
    from Suc.IH [OF this] b Suc.prems(2) show ?thesis by simp
  next
    case False
    with Suc.prems(1) began obtain w2 w3 this2 w4 finished where
      ended: "endFrame this1 w3 = Inr (this2, w4)"
      and rest: "frames count (this2, w4) = Inr (finished, next, w')"
      and completed: "completed = Suc finished"
      by (auto simp: bindE_eq_Inr)
    note e = endFrame_eq_Inr [OF ended]
    from e(1) b(1) Suc.prems(2)
    have step: "currentFrameIndex this2 = (currentFrameIndex this + 1) mod 2"
      by (simp add: smod_two)
    then have "currentFrameIndex this2 \<in> {0, 1}"
      using Suc.prems(2) by auto
    from Suc.IH [OF rest this] step completed show ?thesis
      by (simp add: mod_simps algebra_simps)
  qed
qed

lemma beginFrame_calls:
  assumes "beginFrame this w = Inr (commandBuffer, began, w')"
  shows "prefix (calls w) (calls w')"
    and "lveSwapChain began = lveSwapChain this \<or>
         rebuilt_during (drop (length (calls w)) (calls w'))"
proof -
  from assms obtain chain result written w1 where
    acquired: "acquireNextImage chain (currentImageIndex this) w = Inr ((result, written), w1)"
    and rest: "(let this = this\<lparr>currentImageIndex := written\<rparr> in
     if result = VK_ERROR_OUT_OF_DATE_KHR then
       bindE (recreateSwapChain this w1) (\<lambda>(this, w2). Inr (VK_NULL_HANDLE, this, w2))
     else if result \<noteq> VK_SUCCESS \<and> result \<noteq> VK_SUBOPTIMAL_KHR then
       throw ''failed to acquire swap chain image!''
     else
       let this = this\<lparr>isFrameStarted := True\<rparr> in
       bindE (getCurrentCommandBuffer this) (\<lambda>commandBuffer.
       case api (vkBeginCommandBuffer commandBuffer) w1 of (r, w2) \<Rightarrow>
         if r \<noteq> VK_SUCCESS then throw ''failed to begin recording command buffer!''
         else Inr (commandBuffer, this, w2))) = Inr (commandBuffer, began, w')"
    by (auto simp: beginFrame_def bindE_eq_Inr)
  from acquireNextImage_eq_Inr(3) [OF acquired]
  have first: "prefix (calls w) (calls w1)" by simp
  show "prefix (calls w) (calls w')"
    and "lveSwapChain began = lveSwapChain this \<or>
         rebuilt_during (drop (length (calls w)) (calls w'))"
  proof -
    have "prefix (calls w1) (calls w') \<and>
          (lveSwapChain began = lveSwapChain this \<or>
           rebuilt_during (drop (length (calls w1)) (calls w')))"
    proof (cases "result = VK_ERROR_OUT_OF_DATE_KHR")
      case True
      with rest obtain renewed where
        "recreateSwapChain (this\<lparr>currentImageIndex := written\<rparr>) w1 = Inr (renewed, w')"
        by (auto simp: bindE_eq_Inr Let_def)
      from recreateSwapChain_calls [OF this] show ?thesis by simp
    next
      case False
      with rest show ?thesis
        by (auto simp: bindE_eq_Inr Let_def api_def split: if_splits)
    qed
    with first show "prefix (calls w) (calls w')"
      and "lveSwapChain began = lveSwapChain this \<or>
           rebuilt_during (drop (length (calls w)) (calls w'))"
      using drop_calls_append [OF first, of "calls w'"]
      by (auto intro: prefix_order.trans)
  qed
qed

lemma endFrame_calls:
  assumes "endFrame this w = Inr (ended, w')"
    and "lveSwapChain this = Some chain"
  shows "prefix (calls w) (calls w')"
    and "(\<exists>chain'. lveSwapChain ended = Some chain' \<and>
            currentFrame chain' = (currentFrame chain + 1) mod 2) \<or>
         rebuilt_during (drop (length (calls w)) (calls w'))"
proof -
  from assms obtain commandBuffer presented chain' w2 where
    submitted: "submitCommandBuffers chain commandBuffer (currentImageIndex this)
        (snd (api (vkEndCommandBuffer commandBuffer) w)) = Inr ((presented, chain'), w2)"
    and rest: "bindE (if presented = VK_ERROR_OUT_OF_DATE_KHR \<or> presented = VK_SUBOPTIMAL_KHR \<or>
                   wasWindowResized w2
                then recreateSwapChain (this\<lparr>lveSwapChain := Some chain'\<rparr>)
                       (resetWindowResizedFlag w2)
                else if presented \<noteq> VK_SUCCESS
                     then throw ''failed to present swap chain image!''
                     else Inr (this\<lparr>lveSwapChain := Some chain'\<rparr>, w2)) (\<lambda>(this, w3).
         let this = this\<lparr>isFrameStarted := False\<rparr> in
         if currentFrameIndex this = INT_MAX then Inl SignedOverflow
         else Inr (this\<lparr>currentFrameIndex :=
                          (currentFrameIndex this + 1) smod int MAX_FRAMES_IN_FLIGHT\<rparr>, w3))
       = Inr (ended, w')"
    by (auto simp: endFrame_def bindE_eq_Inr deref_def split_def Let_def api_def
          split: if_splits)
  note s = submitCommandBuffers_eq_Inr [OF submitted]
  from s(4) have first: "prefix (calls w) (calls w2)"
    by (simp add: prefix_def)
  have "prefix (calls w2) (calls w') \<and>
        ((\<exists>chain'. lveSwapChain ended = Some chain' \<and>
            currentFrame chain' = (currentFrame chain + 1) mod 2) \<or>
         rebuilt_during (drop (length (calls w2)) (calls w')))"
  proof (cases "presented = VK_ERROR_OUT_OF_DATE_KHR \<or> presented = VK_SUBOPTIMAL_KHR \<or>
                wasWindowResized w2")
    case True
    with rest obtain renewed where
      "recreateSwapChain (this\<lparr>lveSwapChain := Some chain'\<rparr>) (resetWindowResizedFlag w2)
         = Inr (renewed, w')"
      by (auto simp: bindE_eq_Inr Let_def split: if_splits)
    from recreateSwapChain_calls [OF this] show ?thesis
      by (simp add: resetWindowResizedFlag_def)
  next
    case False
    with rest s(3) show ?thesis
      by (auto simp: bindE_eq_Inr Let_def split: if_splits)
  qed
  with first show "prefix (calls w) (calls w')"
    and "(\<exists>chain'. lveSwapChain ended = Some chain' \<and>
            currentFrame chain' = (currentFrame chain + 1) mod 2) \<or>
         rebuilt_during (drop (length (calls w)) (calls w'))"
    using drop_calls_append [OF first, of "calls w'"]
    by (auto intro: prefix_order.trans)
qed

lemma renderPass_prefix:
  "beginSwapChainRenderPass this commandBuffer w = Inr w1 \<Longrightarrow> prefix (calls w) (calls w1)"
  "endSwapChainRenderPass this commandBuffer w = Inr w1 \<Longrightarrow> prefix (calls w) (calls w1)"
  by (auto simp: beginSwapChainRenderPass_def endSwapChainRenderPass_def bindE_eq_Inr api_def
        Let_def)

lemma frames_prefix:
  "frames count (this, w) = Inr (completed, after, w') \<Longrightarrow> prefix (calls w) (calls w')"
proof (induction count arbitrary: this w completed)
  case 0
  then show ?case by auto
next
  case (Suc count)
  from Suc.prems obtain commandBuffer this1 w1 where
    began: "beginFrame this w = Inr (commandBuffer, this1, w1)"
    by (auto simp: bindE_eq_Inr)
  note b = beginFrame_calls(1) [OF began]
  show ?case
  proof (cases "commandBuffer = VK_NULL_HANDLE")
    case True
    with Suc.prems began have "frames count (this1, w1) = Inr (completed, after, w')"
      by simp
    from Suc.IH [OF this] b show ?thesis
      by (rule prefix_order.trans [rotated])
  next
    case False
    with Suc.prems began obtain w2 w3 this2 w4 finished where
      passes: "beginSwapChainRenderPass this1 commandBuffer w1 = Inr w2"
        "endSwapChainRenderPass this1 commandBuffer w2 = Inr w3"
      and ended: "endFrame this1 w3 = Inr (this2, w4)"
      and rest: "frames count (this2, w4) = Inr (finished, after, w')"
      by (auto simp: bindE_eq_Inr)
    from ended obtain chain where chain: "lveSwapChain this1 = Some chain"
      by (auto simp: endFrame_def bindE_eq_Inr deref_def split_def api_def
            split: if_splits option.splits)
    from b renderPass_prefix(1) [OF passes(1)] renderPass_prefix(2) [OF passes(2)]
      endFrame_calls(1) [OF ended chain] Suc.IH [OF rest]
    show ?thesis
      by (blast intro: prefix_order.trans)
  qed
qed

lemma lockstep_step:
  assumes "k = int (unat (c :: size_t))" and "k \<in> {0, 1}"
  shows "(k + 1) mod 2 = int (unat ((c + 1) mod 2))"
proof -
  from assms(1) have "word_of_int k = c" by simp
  with assms(2) have "c = 0 \<or> c = 1" by auto
  with assms show ?thesis by auto
qed

lemma frames_keep_lockstep:
  assumes "frames count (this, w) = Inr (completed, after, w')"
    and "lockstep this"
    and "currentFrameIndex this \<in> {0, 1}"
    and "\<not> rebuilt_during (drop (length (calls w)) (calls w'))"
  shows "lockstep after"
  using assms
proof (induction count arbitrary: this w completed)
  case 0
  then show ?case by auto
next
  case (Suc count)
  from Suc.prems(1) obtain commandBuffer this1 w1 where
    began: "beginFrame this w = Inr (commandBuffer, this1, w1)"
    by (auto simp: bindE_eq_Inr)
  note b = beginFrame_eq_Inr [OF began]
  note bc = beginFrame_calls [OF began]
  show ?case
  proof (cases "commandBuffer = VK_NULL_HANDLE")
    case True
    with Suc.prems(1) began have rest: "frames count (this1, w1) = Inr (completed, after, w')"
      by simp
    from drop_calls_append [OF bc(1) frames_prefix [OF rest]] Suc.prems(4)
    have quiet: "\<not> rebuilt_during (drop (length (calls w)) (calls w1))"
      "\<not> rebuilt_during (drop (length (calls w1)) (calls w'))"
      by simp_all
    with bc(2) have "lveSwapChain this1 = lveSwapChain this" by simp
    with Suc.prems(2) b(1) have "lockstep this1"
      by (auto simp: lockstep_def split: option.splits)
    from Suc.IH [OF rest this _ quiet(2)] b(1) Suc.prems(3) show ?thesis by simp
  next
    case False
    with Suc.prems(1) began obtain w2 w3 this2 w4 finished where
      passes: "beginSwapChainRenderPass this1 commandBuffer w1 = Inr w2"
        "endSwapChainRenderPass this1 commandBuffer w2 = Inr w3"
      and ended: "endFrame this1 w3 = Inr (this2, w4)"
      and rest: "frames count (this2, w4) = Inr (finished, after, w')"
      by (auto simp: bindE_eq_Inr)
    note p = renderPass_prefix(1) [OF passes(1)] renderPass_prefix(2) [OF passes(2)]
    from ended obtain chain where chain: "lveSwapChain this1 = Some chain"
      by (auto simp: endFrame_def bindE_eq_Inr deref_def split_def api_def
            split: if_splits option.splits)
    note ec = endFrame_calls [OF ended chain]
    note fp = frames_prefix [OF rest]
    have to3: "prefix (calls w1) (calls w3)"
      using p by (rule prefix_order.trans)
    have to4: "prefix (calls w1) (calls w4)"
      using to3 ec(1) by (rule prefix_order.trans)
    have after1: "prefix (calls w1) (calls w')"
      using to4 fp by (rule prefix_order.trans)
    from drop_calls_append [OF bc(1) after1] Suc.prems(4)
    have quiet1: "\<not> rebuilt_during (drop (length (calls w)) (calls w1))"
      "\<not> rebuilt_during (drop (length (calls w1)) (calls w'))"
      by simp_all
    from drop_calls_append [OF to3 prefix_order.trans [OF ec(1) fp]] quiet1(2)
    have quiet3: "\<not> rebuilt_during (drop (length (calls w3)) (calls w'))"
      by simp
    from drop_calls_append [OF ec(1) fp] quiet3
    have quiet4: "\<not> rebuilt_during (drop (length (calls w3)) (calls w4))"
      "\<not> rebuilt_during (drop (length (calls w4)) (calls w'))"
      by simp_all
    from bc(2) quiet1(1) have "lveSwapChain this1 = lveSwapChain this" by simp
    with Suc.prems(2) b(1) chain
    have equal: "currentFrameIndex this1 = int (unat (currentFrame chain))"
      by (auto simp: lockstep_def split: option.splits)
    note i = endFrame_eq_Inr [OF ended]
    from Suc.prems(3) b(1) have in1: "currentFrameIndex this1 \<in> {0, 1}" by simp
    from i(1) in1 have next_index: "currentFrameIndex this2 = (currentFrameIndex this1 + 1) mod 2"
      by (simp add: smod_two)
    from ec(2) quiet4(1) obtain chain' where chain': "lveSwapChain this2 = Some chain'"
      "currentFrame chain' = (currentFrame chain + 1) mod 2"
      by blast
    have lock2: "lockstep this2"
      using chain' next_index lockstep_step [OF equal in1] by (auto simp: lockstep_def)
    have in2: "currentFrameIndex this2 \<in> {0, 1}"
      using next_index in1 by auto
    from Suc.IH [OF rest lock2 in2 quiet4(2)] show ?thesis .
  qed
qed

text \<open>The concrete renderer is the one the constructor builds.\<close>

lemma example_renderer_built:
  "map_sum id fst (LveRenderer_new 0 0 False example_world) = Inr example_renderer"
  by code_simp

section \<open>Arithmetic of the image count\<close>



section \<open>The claims of the specification\<close>

lemma chooseSwapSurfaceFormat_loop_Some:
  "chooseSwapSurfaceFormat_loop fs = Some f \<Longrightarrow> f \<in> set fs \<and> preferred_format f"
  by (induction fs) (auto split: if_splits)

lemma chooseSwapSurfaceFormat_loop_None:
  "chooseSwapSurfaceFormat_loop fs = None \<longleftrightarrow> (\<forall>f \<in> set fs. \<not> preferred_format f)"
  by (induction fs) auto

text \<open>
  C7. On a non-empty list of available formats \<open>chooseSwapSurfaceFormat\<close> returns an
  entry of the list; when the list holds an entry with format B8G8R8A8_SRGB and colour
  space SRGB_NONLINEAR the returned entry is such an entry, and when it holds none the
  returned entry is the first element of the list.
\<close>

theorem chooseSwapSurfaceFormat_prefers_srgb:
  assumes "availableFormats \<noteq> []"
  shows "\<exists>chosen. chooseSwapSurfaceFormat availableFormats = Inr chosen \<and>
           chosen \<in> set availableFormats \<and>
           ((\<exists>f \<in> set availableFormats. preferred_format f) \<longrightarrow>
              format chosen = VK_FORMAT_B8G8R8A8_SRGB \<and>
              colorSpace chosen = VK_COLOR_SPACE_SRGB_NONLINEAR_KHR) \<and>
           ((\<forall>f \<in> set availableFormats. \<not> preferred_format f) \<longrightarrow>
              chosen = availableFormats ! 0)"
proof (cases "chooseSwapSurfaceFormat_loop availableFormats")
  case None
  then have none: "\<forall>f \<in> set availableFormats. \<not> preferred_format f"
    by (simp add: chooseSwapSurfaceFormat_loop_None)
  from assms obtain first rest where "availableFormats = first # rest"
    by (cases availableFormats) auto
  with None none show ?thesis
    by (auto simp: chooseSwapSurfaceFormat_def element_at_def)
next
  case (Some f)
  then have "f \<in> set availableFormats" "preferred_format f"
    using chooseSwapSurfaceFormat_loop_Some by blast+
  with Some show ?thesis
    by (auto simp: chooseSwapSurfaceFormat_def preferred_format_def)
qed

theorem chooseSwapSurfaceFormat_prefers_srgb_witness:
  "chooseSwapSurfaceFormat
     [\<lparr>format = VK_FORMAT_B8G8R8A8_UNORM, colorSpace = VK_COLOR_SPACE_SRGB_NONLINEAR_KHR\<rparr>,
      \<lparr>format = VK_FORMAT_other 97, colorSpace = VK_COLOR_SPACE_other 1000104002\<rparr>]
   = Inr \<lparr>format = VK_FORMAT_B8G8R8A8_UNORM, colorSpace = VK_COLOR_SPACE_SRGB_NONLINEAR_KHR\<rparr> \<and>
   chooseSwapSurfaceFormat
     [\<lparr>format = VK_FORMAT_B8G8R8A8_UNORM, colorSpace = VK_COLOR_SPACE_SRGB_NONLINEAR_KHR\<rparr>,
      \<lparr>format = VK_FORMAT_B8G8R8A8_SRGB, colorSpace = VK_COLOR_SPACE_SRGB_NONLINEAR_KHR\<rparr>]
   = Inr \<lparr>format = VK_FORMAT_B8G8R8A8_SRGB, colorSpace = VK_COLOR_SPACE_SRGB_NONLINEAR_KHR\<rparr>"
  using chooseSwapSurfaceFormat_prefers_srgb
    [of "[\<lparr>format = VK_FORMAT_B8G8R8A8_UNORM, colorSpace = VK_COLOR_SPACE_SRGB_NONLINEAR_KHR\<rparr>,
          \<lparr>format = VK_FORMAT_other 97, colorSpace = VK_COLOR_SPACE_other 1000104002\<rparr>]"]
    chooseSwapSurfaceFormat_prefers_srgb
    [of "[\<lparr>format = VK_FORMAT_B8G8R8A8_UNORM, colorSpace = VK_COLOR_SPACE_SRGB_NONLINEAR_KHR\<rparr>,
          \<lparr>format = VK_FORMAT_B8G8R8A8_SRGB, colorSpace = VK_COLOR_SPACE_SRGB_NONLINEAR_KHR\<rparr>]"]
  by (auto simp: preferred_format_def)

text \<open>
  C6. \<open>chooseSwapExtent\<close> returns the surface's \<open>currentExtent\<close> whenever that extent
  is well defined, which the code tests as its width not being the sentinel
  \<open>0xFFFFFFFF\<close>; otherwise it returns the window extent with each dimension brought
  into the bounds of the surface: the dimension itself when it lies between
  \<open>minImageExtent\<close> and \<open>maxImageExtent\<close>, the lower bound when it is below, the
  upper bound when it is above, and always a value between the two bounds.
\<close>

theorem chooseSwapExtent_current_or_clamped:
  "(width (currentExtent caps) \<noteq> 0xFFFFFFFF \<longrightarrow>
      chooseSwapExtent this caps = currentExtent caps) \<and>
   (width (currentExtent caps) = 0xFFFFFFFF \<longrightarrow>
      width (chooseSwapExtent this caps) =
        max (width (minImageExtent caps)) (min (width (maxImageExtent caps)) (width (windowExtent this))) \<and>
      height (chooseSwapExtent this caps) =
        max (height (minImageExtent caps)) (min (height (maxImageExtent caps)) (height (windowExtent this))) \<and>
      (width (minImageExtent caps) \<le> width (maxImageExtent caps) \<longrightarrow>
         width (minImageExtent caps) \<le> width (chooseSwapExtent this caps) \<and>
         width (chooseSwapExtent this caps) \<le> width (maxImageExtent caps) \<and>
         (width (minImageExtent caps) \<le> width (windowExtent this) \<and>
          width (windowExtent this) \<le> width (maxImageExtent caps) \<longrightarrow>
            width (chooseSwapExtent this caps) = width (windowExtent this))) \<and>
      (height (minImageExtent caps) \<le> height (maxImageExtent caps) \<longrightarrow>
         height (minImageExtent caps) \<le> height (chooseSwapExtent this caps) \<and>
         height (chooseSwapExtent this caps) \<le> height (maxImageExtent caps) \<and>
         (height (minImageExtent caps) \<le> height (windowExtent this) \<and>
          height (windowExtent this) \<le> height (maxImageExtent caps) \<longrightarrow>
            height (chooseSwapExtent this caps) = height (windowExtent this))))"
  by (auto simp: chooseSwapExtent_def UINT32_MAX_def Let_def max_def min_def)

theorem chooseSwapExtent_current_or_clamped_witness:
  "chooseSwapExtent (members_before_init \<lparr>width = 800, height = 600\<rparr> None)
     \<lparr>minImageCount = 2, maxImageCount = 3,
      currentExtent = \<lparr>width = 1024, height = 768\<rparr>,
      minImageExtent = \<lparr>width = 1, height = 1\<rparr>,
      maxImageExtent = \<lparr>width = 4096, height = 4096\<rparr>\<rparr>
     = \<lparr>width = 1024, height = 768\<rparr> \<and>
   chooseSwapExtent (members_before_init \<lparr>width = 5000, height = 600\<rparr> None)
     \<lparr>minImageCount = 2, maxImageCount = 3,
      currentExtent = \<lparr>width = 0xFFFFFFFF, height = 0xFFFFFFFF\<rparr>,
      minImageExtent = \<lparr>width = 1, height = 1\<rparr>,
      maxImageExtent = \<lparr>width = 4096, height = 4096\<rparr>\<rparr>
     = \<lparr>width = 4096, height = 600\<rparr>"
  using chooseSwapExtent_current_or_clamped
    [of "\<lparr>minImageCount = 2, maxImageCount = 3,
          currentExtent = \<lparr>width = 1024, height = 768\<rparr>,
          minImageExtent = \<lparr>width = 1, height = 1\<rparr>,
          maxImageExtent = \<lparr>width = 4096, height = 4096\<rparr>\<rparr>"
        "members_before_init \<lparr>width = 800, height = 600\<rparr> None"]
    chooseSwapExtent_current_or_clamped
    [of "\<lparr>minImageCount = 2, maxImageCount = 3,
          currentExtent = \<lparr>width = 0xFFFFFFFF, height = 0xFFFFFFFF\<rparr>,
          minImageExtent = \<lparr>width = 1, height = 1\<rparr>,
          maxImageExtent = \<lparr>width = 4096, height = 4096\<rparr>\<rparr>"
        "members_before_init \<lparr>width = 5000, height = 600\<rparr> None"]
  by (simp add: chooseSwapExtent_def UINT32_MAX_def Let_def members_before_init_def)

text \<open>
  C10. \<open>getCurrentCommandBuffer\<close> and \<open>getFrameIndex\<close> need an open frame: with no
  frame open each is an assertion failure; with a frame open \<open>getFrameIndex\<close> returns
  the current frame-slot index and \<open>getCurrentCommandBuffer\<close> the command buffer at
  that index of \<open>commandBuffers\<close>.
\<close>

theorem accessors_need_open_frame:
  "(\<not> isFrameStarted this \<longrightarrow>
      getCurrentCommandBuffer this =
        Inl (AssertionFailed ''Cannot get command buffer when frame not in progress'') \<and>
      getFrameIndex this =
        Inl (AssertionFailed ''Cannot get frame index when frame not in progress'')) \<and>
   (isFrameStarted this \<longrightarrow>
      getFrameIndex this = Inr (currentFrameIndex this) \<and>
      (0 \<le> currentFrameIndex this \<and>
       nat (currentFrameIndex this) < length (commandBuffers this) \<longrightarrow>
         getCurrentCommandBuffer this =
           Inr (commandBuffers this ! nat (currentFrameIndex this))))"
  by (simp add: getCurrentCommandBuffer_def getFrameIndex_def assert_def element_at_int_def
        element_at_def)

theorem accessors_need_open_frame_witness:
  "getCurrentCommandBuffer
     \<lparr>lveSwapChain = None, commandBuffers = [7, 8], currentImageIndex = 0,
      currentFrameIndex = 1, isFrameStarted = True\<rparr> = Inr 8 \<and>
   getFrameIndex
     \<lparr>lveSwapChain = None, commandBuffers = [7, 8], currentImageIndex = 0,
      currentFrameIndex = 1, isFrameStarted = True\<rparr> = Inr 1 \<and>
   getFrameIndex
     \<lparr>lveSwapChain = None, commandBuffers = [7, 8], currentImageIndex = 0,
      currentFrameIndex = 1, isFrameStarted = False\<rparr> =
     Inl (AssertionFailed ''Cannot get frame index when frame not in progress'')"
  using accessors_need_open_frame
    [of "\<lparr>lveSwapChain = None, commandBuffers = [7, 8], currentImageIndex = 0,
          currentFrameIndex = 1, isFrameStarted = True\<rparr>"]
    accessors_need_open_frame
    [of "\<lparr>lveSwapChain = None, commandBuffers = [7, 8], currentImageIndex = 0,
          currentFrameIndex = 1, isFrameStarted = False\<rparr>"]
  by simp

text \<open>
  The assertions as the code words them, on the flag \<open>isFrameStarted\<close>: \<open>beginFrame\<close>
  fails its assertion while the flag holds true; \<open>endFrame\<close>,
  \<open>beginSwapChainRenderPass\<close> and \<open>endSwapChainRenderPass\<close> fail theirs while it
  holds false; and, while it holds true, a render pass begun or ended on a command buffer
  that is not the current slot's fails the second assertion.
\<close>

lemma assertions_follow_isFrameStarted:
  "(isFrameStarted this \<longrightarrow>
      beginFrame this w =
        Inl (AssertionFailed ''Can't call beginFrame while already in progress'')) \<and>
   (\<not> isFrameStarted this \<longrightarrow>
      endFrame this w =
        Inl (AssertionFailed ''Can't call endFrame while frame is not in progress'') \<and>
      beginSwapChainRenderPass this commandBuffer w =
        Inl (AssertionFailed ''Can't call beginSwapChainRenderPass if frame is not in progress'') \<and>
      endSwapChainRenderPass this commandBuffer w =
        Inl (AssertionFailed ''Can't call endSwapChainRenderPass if frame is not in progress'')) \<and>
   (isFrameStarted this \<and> getCurrentCommandBuffer this = Inr current \<and>
    commandBuffer \<noteq> current \<longrightarrow>
      beginSwapChainRenderPass this commandBuffer w =
        Inl (AssertionFailed ''Can't begin render pass on command buffer from a different frame'') \<and>
      endSwapChainRenderPass this commandBuffer w =
        Inl (AssertionFailed ''Can't end render pass on command buffer from a different frame''))"
  by (simp add: beginFrame_def endFrame_def beginSwapChainRenderPass_def
        endSwapChainRenderPass_def assert_def)

text \<open>
  C8 does not hold of the code. The flag is all the assertions look at, the class gives
  \<open>isFrameStarted\<close> no initialiser and the constructor assigns it nothing, so a renderer
  fresh from its constructor may hold true in it with no frame open. The constructor
  run in \<open>example_world\<close> with true in the flag returns after 31 calls; \<open>endFrame\<close>
  called next, with no \<open>beginFrame\<close> ever called, fails no assertion: it ends the
  recording of command buffer 27, resets fence 23, submits, presents image 0 and returns,
  the flag now false and the frame-slot index advanced from 0 to 1.
\<close>

theorem endFrame_with_no_frame_begun_submits_and_presents:
  "map_sum id (isFrameStarted \<circ> fst) (LveRenderer_new 0 0 True example_world) = Inr True \<and>
   map_sum id (length \<circ> calls \<circ> snd) (LveRenderer_new 0 0 True example_world) = Inr 31 \<and>
   map_sum id (\<lambda>(this, w). (drop 31 (calls w), isFrameStarted this, currentFrameIndex this))
     (endFrame (fst (projr (LveRenderer_new 0 0 True example_world)))
        (snd (projr (LveRenderer_new 0 0 True example_world))))
   = Inr ([vkEndCommandBuffer 27,
           vkResetFences 23,
           vkQueueSubmit graphicsQueue 21 VK_PIPELINE_STAGE_COLOR_ATTACHMENT_OUTPUT_BIT 27 22 23,
           vkQueuePresentKHR presentQueue 22 1 0],
          False, 1)"
  by code_simp




text \<open>
  C9. A swap chain constructed with a previous instance holds no pointer to it once the
  constructor has returned: \<open>oldSwapChain\<close> is null.
\<close>

theorem recreation_constructor_releases_previous:
  assumes "LveSwapChain_recreate extent (Some previous) w = Inr (sc, w')"
  shows "oldSwapChain sc = None"
  using assms by (auto simp: LveSwapChain_recreate_def bindE_eq_Inr)

theorem recreation_constructor_releases_previous_witness:
  "\<exists>sc w'. LveSwapChain_recreate \<lparr>width = 800, height = 600\<rparr>
      (Some (LveSwapChain_members.truncate (members_before_init \<lparr>width = 640, height = 480\<rparr> None)))
      example_world = Inr (sc, w') \<and> oldSwapChain sc = None"
proof -
  have "case LveSwapChain_recreate \<lparr>width = 800, height = 600\<rparr>
      (Some (LveSwapChain_members.truncate (members_before_init \<lparr>width = 640, height = 480\<rparr> None)))
      example_world of Inl e \<Rightarrow> False | Inr built \<Rightarrow> True"
    by code_simp
  then obtain sc w' where
    new: "LveSwapChain_recreate \<lparr>width = 800, height = 600\<rparr>
      (Some (LveSwapChain_members.truncate (members_before_init \<lparr>width = 640, height = 480\<rparr> None)))
      example_world = Inr (sc, w')"
    by (auto split: sum.splits)
  with recreation_constructor_releases_previous [OF new] show ?thesis
    by blast
qed

text \<open>
  C5. When the renderer already has a swap chain, \<open>recreateSwapChain\<close> ends with the
  error "Swap chain image(or depth) format has changed!" exactly when the new instance
  gets built and its colour format or its depth format differs from the old instance's.
  With both formats unchanged the error is never raised; nothing else raises it.
\<close>

theorem format_changed_iff_formats_differ:
  assumes "lveSwapChain this = Some old"
  shows "recreateSwapChain this w =
           Inl (RuntimeError ''Swap chain image(or depth) format has changed!'') \<longleftrightarrow>
         (\<exists>extent w1 new w3.
            wait_while_minimized (getExtent w) w = Inr (extent, w1) \<and>
            LveSwapChain_recreate extent (Some (LveSwapChain_members.truncate old))
              (snd (api vkDeviceWaitIdle w1)) = Inr (new, w3) \<and>
            (swapChainImageFormat new \<noteq> swapChainImageFormat old \<or>
             swapChainDepthFormat new \<noteq> swapChainDepthFormat old))"
proof (cases "wait_while_minimized (getExtent w) w")
  case (Inl e)
  then have "e = NeverReturns" by (rule wait_while_minimized_Inl)
  with Inl show ?thesis by (simp add: recreateSwapChain_def)
next
  case (Inr waited)
  obtain extent w1 where waited: "waited = (extent, w1)" by (cases waited)
  show ?thesis
  proof (cases "LveSwapChain_recreate extent (Some (LveSwapChain_members.truncate old))
                  (snd (api vkDeviceWaitIdle w1))")
    case (Inl e)
    then have "construction_fault e" by (rule LveSwapChain_recreate_Inl)
    then have "e \<noteq> RuntimeError ''Swap chain image(or depth) format has changed!''"
      using not_construction_fault_format_changed by blast
    with Inl Inr waited assms show ?thesis
      by (simp add: recreateSwapChain_def Let_def)
  next
    case built: (Inr result)
    obtain new w3 where result: "result = (new, w3)" by (cases result)
    with built Inr waited assms show ?thesis
      by (auto simp: recreateSwapChain_def Let_def compareSwapFormats_def throw_def)
  qed
qed

theorem format_changed_iff_formats_differ_witness:
  "recreateSwapChain
     \<lparr>lveSwapChain = Some ((members_before_init \<lparr>width = 800, height = 600\<rparr> None)
        \<lparr>swapChainImageFormat := VK_FORMAT_B8G8R8A8_SRGB,
         swapChainDepthFormat := VK_FORMAT_D32_SFLOAT\<rparr>),
      commandBuffers = [7, 8], currentImageIndex = 0, currentFrameIndex = 0,
      isFrameStarted = False\<rparr> example_world
     \<noteq> Inl (RuntimeError ''Swap chain image(or depth) format has changed!'') \<and>
   recreateSwapChain
     \<lparr>lveSwapChain = Some ((members_before_init \<lparr>width = 800, height = 600\<rparr> None)
        \<lparr>swapChainImageFormat := VK_FORMAT_B8G8R8A8_UNORM,
         swapChainDepthFormat := VK_FORMAT_D32_SFLOAT\<rparr>),
      commandBuffers = [7, 8], currentImageIndex = 0, currentFrameIndex = 0,
      isFrameStarted = False\<rparr> example_world
     = Inl (RuntimeError ''Swap chain image(or depth) format has changed!'') \<and>
   (\<exists>extent w1 new w3.
      wait_while_minimized (getExtent example_world) example_world = Inr (extent, w1) \<and>
      LveSwapChain_recreate extent
        (Some (LveSwapChain_members.truncate
           ((members_before_init \<lparr>width = 800, height = 600\<rparr> None)
             \<lparr>swapChainImageFormat := VK_FORMAT_B8G8R8A8_UNORM,
              swapChainDepthFormat := VK_FORMAT_D32_SFLOAT\<rparr>)))
        (snd (api vkDeviceWaitIdle w1)) = Inr (new, w3) \<and>
      swapChainImageFormat new = VK_FORMAT_B8G8R8A8_SRGB)"
proof -
  let ?same = "(members_before_init \<lparr>width = 800, height = 600\<rparr> None)
        \<lparr>swapChainImageFormat := VK_FORMAT_B8G8R8A8_SRGB,
         swapChainDepthFormat := VK_FORMAT_D32_SFLOAT\<rparr>"
  let ?other = "(members_before_init \<lparr>width = 800, height = 600\<rparr> None)
        \<lparr>swapChainImageFormat := VK_FORMAT_B8G8R8A8_UNORM,
         swapChainDepthFormat := VK_FORMAT_D32_SFLOAT\<rparr>"
  let ?renderer = "\<lambda>chain. \<lparr>lveSwapChain = Some chain, commandBuffers = [7, 8],
      currentImageIndex = 0, currentFrameIndex = 0, isFrameStarted = False\<rparr>"
  have "case recreateSwapChain (?renderer ?same) example_world of
          Inl e \<Rightarrow> False | Inr rebuilt \<Rightarrow> True"
    by code_simp
  then have kept: "recreateSwapChain (?renderer ?same) example_world
     \<noteq> Inl (RuntimeError ''Swap chain image(or depth) format has changed!'')"
    by (auto split: sum.splits)
  have "case recreateSwapChain (?renderer ?other) example_world of
          Inl e \<Rightarrow> e = RuntimeError ''Swap chain image(or depth) format has changed!''
        | Inr rebuilt \<Rightarrow> False"
    by code_simp
  then have changed: "recreateSwapChain (?renderer ?other) example_world
     = Inl (RuntimeError ''Swap chain image(or depth) format has changed!'')"
    by (auto split: sum.splits)
  have waited: "wait_while_minimized (getExtent example_world) example_world
     = Inr (\<lparr>width = 800, height = 600\<rparr>, example_world)"
    by (simp add: getExtent_def example_world_def)
  have built: "case LveSwapChain_recreate \<lparr>width = 800, height = 600\<rparr>
        (Some (LveSwapChain_members.truncate ?other))
        (snd (api vkDeviceWaitIdle example_world)) of
          Inl e \<Rightarrow> False | Inr (new, w3) \<Rightarrow> swapChainImageFormat new = VK_FORMAT_B8G8R8A8_SRGB"
    by code_simp
  from format_changed_iff_formats_differ [of "?renderer ?other" ?other example_world] changed
  obtain extent w1 new w3 where
    "wait_while_minimized (getExtent example_world) example_world = Inr (extent, w1)"
    "LveSwapChain_recreate extent (Some (LveSwapChain_members.truncate ?other))
       (snd (api vkDeviceWaitIdle w1)) = Inr (new, w3)"
    by auto
  with waited built kept changed show ?thesis
    by auto
qed

text \<open>
  C4, as the code has it. A call of \<open>submitCommandBuffers\<close> with the image index and the
  slot index inside their vectors, whose wait for the image's fence (if the image has
  one) returns, makes after that wait exactly three calls in this order: the slot's fence
  is reset; the command buffer is submitted to the graphics queue, waiting for the slot's
  image-available semaphore at the colour-attachment-output stage, signaling the slot's
  render-finished semaphore, with the slot's fence; the image is presented on the present
  queue, waiting for the render-finished semaphore. Then the frame index advances by one
  modulo 2 and the result of the present call is returned. All this when the submission
  succeeds: when \<open>vkQueueSubmit\<close> does not return \<open>VK_SUCCESS\<close> the call throws
  "failed to submit draw command buffer!" and returns nothing, and the reset and the
  submission are the only calls it has made after the wait: nothing is presented.
\<close>

theorem submit_present_in_order_when_submitted:
  assumes "unat imageIndex < length (imagesInFlight this)"
    and "unat (currentFrame this) < length (inFlightFences this)"
    and "unat (currentFrame this) < length (imageAvailableSemaphores this)"
    and "unat (currentFrame this) < length (renderFinishedSemaphores this)"
    and "imagesInFlight this ! unat imageIndex \<noteq> VK_NULL_HANDLE \<longrightarrow>
           fence w (imagesInFlight this ! unat imageIndex) \<noteq> Unsignaled"
  shows "let slot = unat (currentFrame this);
             waits = (if imagesInFlight this ! unat imageIndex \<noteq> VK_NULL_HANDLE
                      then [vkWaitForFences (imagesInFlight this ! unat imageIndex)] else []);
             before = length (calls w) + length waits
         in (result_of w (before + 1) = VK_SUCCESS \<longrightarrow>
               (\<exists>chain w'.
                  submitCommandBuffers this buffer imageIndex w =
                    Inr ((result_of w (before + 2), chain), w') \<and>
                  calls w' = calls w @ waits @
                    [vkResetFences (inFlightFences this ! slot),
                     vkQueueSubmit graphicsQueue (imageAvailableSemaphores this ! slot)
                       VK_PIPELINE_STAGE_COLOR_ATTACHMENT_OUTPUT_BIT buffer
                       (renderFinishedSemaphores this ! slot) (inFlightFences this ! slot),
                     vkQueuePresentKHR presentQueue (renderFinishedSemaphores this ! slot)
                       (swapChain this) imageIndex] \<and>
                  currentFrame chain = (currentFrame this + 1) mod 2)) \<and>
            (result_of w (before + 1) \<noteq> VK_SUCCESS \<longrightarrow>
               submitCommandBuffers this buffer imageIndex w =
                 Inl (RuntimeError ''failed to submit draw command buffer!'') \<and>
               (\<exists>w'.
                  submitCommandBuffers_steps this buffer imageIndex w =
                    (Inl (RuntimeError ''failed to submit draw command buffer!''), w') \<and>
                  calls w' = calls w @ waits @
                    [vkResetFences (inFlightFences this ! slot),
                     vkQueueSubmit graphicsQueue (imageAvailableSemaphores this ! slot)
                       VK_PIPELINE_STAGE_COLOR_ATTACHMENT_OUTPUT_BIT buffer
                       (renderFinishedSemaphores this ! slot) (inFlightFences this ! slot)]))"
proof (cases "imagesInFlight this ! unat imageIndex \<noteq> VK_NULL_HANDLE")
  case True
  with assms(5) have "wait_for_fence (imagesInFlight this ! unat imageIndex) w =
      Inr (w\<lparr>fence := (fence w)(imagesInFlight this ! unat imageIndex := Signaled),
              calls := calls w @ [vkWaitForFences (imagesInFlight this ! unat imageIndex)]\<rparr>)"
    by (simp add: wait_for_fence_eq_Inr)
  with True have "(if imagesInFlight this ! unat imageIndex \<noteq> VK_NULL_HANDLE
          then wait_for_fence (imagesInFlight this ! unat imageIndex) w else Inr w) =
      Inr (w\<lparr>fence := (fence w)(imagesInFlight this ! unat imageIndex := Signaled),
              calls := calls w @ [vkWaitForFences (imagesInFlight this ! unat imageIndex)]\<rparr>)"
    by simp
  from submitCommandBuffers_after_wait [OF assms(1-4) this, of buffer]
    submitCommandBuffers_steps_after_wait [OF assms(1-4) this, of buffer] True
  show ?thesis by (simp add: Let_def)
next
  case False
  then have "(if imagesInFlight this ! unat imageIndex \<noteq> VK_NULL_HANDLE
          then wait_for_fence (imagesInFlight this ! unat imageIndex) w else Inr w) = Inr w"
    by simp
  from submitCommandBuffers_after_wait [OF assms(1-4) this, of buffer]
    submitCommandBuffers_steps_after_wait [OF assms(1-4) this, of buffer] False
  show ?thesis by (simp add: Let_def)
qed

theorem submit_present_in_order_when_submitted_witness:
  "(\<exists>chain w'.
      submitCommandBuffers
        (fst (projr (LveSwapChain_new \<lparr>width = 800, height = 600\<rparr> example_world))) 27 0
        (snd (projr (LveSwapChain_new \<lparr>width = 800, height = 600\<rparr> example_world)))
      = Inr ((VK_SUCCESS, chain), w') \<and> currentFrame chain = 1 \<and>
      drop 29 (calls w') =
        [vkResetFences 23,
         vkQueueSubmit graphicsQueue 21 VK_PIPELINE_STAGE_COLOR_ATTACHMENT_OUTPUT_BIT 27 22 23,
         vkQueuePresentKHR presentQueue 22 1 0]) \<and>
   submitCommandBuffers
     (fst (projr (LveSwapChain_new \<lparr>width = 800, height = 600\<rparr> submit_fails_world))) 27 0
     (snd (projr (LveSwapChain_new \<lparr>width = 800, height = 600\<rparr> submit_fails_world)))
   = Inl (RuntimeError ''failed to submit draw command buffer!'') \<and>
   (\<exists>w'.
      submitCommandBuffers_steps
        (fst (projr (LveSwapChain_new \<lparr>width = 800, height = 600\<rparr> submit_fails_world))) 27 0
        (snd (projr (LveSwapChain_new \<lparr>width = 800, height = 600\<rparr> submit_fails_world)))
      = (Inl (RuntimeError ''failed to submit draw command buffer!''), w') \<and>
      drop 29 (calls w') =
        [vkResetFences 23,
         vkQueueSubmit graphicsQueue 21 VK_PIPELINE_STAGE_COLOR_ATTACHMENT_OUTPUT_BIT 27 22 23])"
proof -
  let ?built = "projr (LveSwapChain_new \<lparr>width = 800, height = 600\<rparr> example_world)"
  let ?lost = "projr (LveSwapChain_new \<lparr>width = 800, height = 600\<rparr> submit_fails_world)"
  let ?chain = "\<lparr>swapChainImageFormat = VK_FORMAT_B8G8R8A8_SRGB,
        swapChainDepthFormat = VK_FORMAT_D32_SFLOAT,
        swapChainExtent = \<lparr>width = 800, height = 600\<rparr>,
        swapChainFramebuffers = [18, 19, 20], renderPass = 8,
        depthImages = [9, 12, 15], depthImageMemorys = [10, 13, 16],
        depthImageViews = [11, 14, 17], swapChainImages = [2, 3, 4],
        swapChainImageViews = [5, 6, 7],
        windowExtent = \<lparr>width = 800, height = 600\<rparr>, swapChain = 1,
        imageAvailableSemaphores = [21, 24],
        renderFinishedSemaphores = [22, 25], inFlightFences = [23, 26],
        imagesInFlight = [0, 0, 0], currentFrame = 0, oldSwapChain = None\<rparr>"
  have chain: "fst ?built = ?chain" "fst ?lost = ?chain"
    by code_simp+
  have made: "length (calls (snd ?built)) = 29" "length (calls (snd ?lost)) = 29"
    by code_simp+
  have answers: "result_of (snd ?built) 30 = VK_SUCCESS" "result_of (snd ?built) 31 = VK_SUCCESS"
    "result_of (snd ?lost) 30 = VK_ERROR_DEVICE_LOST"
    by code_simp+
  have submitted: "\<exists>chain w'.
      submitCommandBuffers (fst ?built) 27 0 (snd ?built) = Inr ((VK_SUCCESS, chain), w') \<and>
      currentFrame chain = 1 \<and>
      drop 29 (calls w') =
        [vkResetFences 23,
         vkQueueSubmit graphicsQueue 21 VK_PIPELINE_STAGE_COLOR_ATTACHMENT_OUTPUT_BIT 27 22 23,
         vkQueuePresentKHR presentQueue 22 1 0]"
    using submit_present_in_order_when_submitted [of 0 "fst ?built" "snd ?built" 27]
      made(1) answers(1,2)
    by (auto simp add: chain Let_def VK_NULL_HANDLE_def)
  have thrown: "submitCommandBuffers (fst ?lost) 27 0 (snd ?lost)
      = Inl (RuntimeError ''failed to submit draw command buffer!'') \<and>
      (\<exists>w'. submitCommandBuffers_steps (fst ?lost) 27 0 (snd ?lost)
          = (Inl (RuntimeError ''failed to submit draw command buffer!''), w') \<and>
        drop 29 (calls w') =
          [vkResetFences 23,
           vkQueueSubmit graphicsQueue 21 VK_PIPELINE_STAGE_COLOR_ATTACHMENT_OUTPUT_BIT
             27 22 23])"
    using submit_present_in_order_when_submitted [of 0 "fst ?lost" "snd ?lost" 27]
      made(2) answers(3)
    by (auto simp add: chain Let_def VK_NULL_HANDLE_def)
  from submitted thrown show ?thesis
    by blast
qed

text \<open>
  C4 as stated fails: on a swap chain just built, with a device that is lost at the
  submission, the call throws and returns no status.
\<close>

theorem submit_failure_throws_counterexample:
  "map_sum id (fst \<circ> fst)
     (submitCommandBuffers
        (fst (projr (LveSwapChain_new \<lparr>width = 800, height = 600\<rparr> submit_fails_world)))
        27 0
        (snd (projr (LveSwapChain_new \<lparr>width = 800, height = 600\<rparr> submit_fails_world))))
   = Inl (RuntimeError ''failed to submit draw command buffer!'')"
  by code_simp

text \<open>
  C1. When the in-flight map holds a fence for the target image, a call of
  \<open>submitCommandBuffers\<close> first waits for that fence: it never returns while the fence is
  unsignaled with nothing pending, and when it returns the wait has come back with the
  fence signaled, before the reset, the submission and the presentation, which are the only
  calls after it; the map then holds the current slot's fence for the image. Hence over
  any number of acquire/submit pairs on a swap chain whose map is still empty, for any
  number of images, no image is presented again unless the fence recorded at its last
  use was waited for before the new submission.
\<close>

theorem image_reuse_waits_for_recorded_fence:
  "(unat imageIndex < length (imagesInFlight this) \<and>
    imagesInFlight this ! unat imageIndex \<noteq> VK_NULL_HANDLE \<longrightarrow>
      (fence w (imagesInFlight this ! unat imageIndex) = Unsignaled \<longrightarrow>
         submitCommandBuffers this buffer imageIndex w = Inl NeverReturns) \<and>
      (\<forall>presented chain w'.
         submitCommandBuffers this buffer imageIndex w = Inr ((presented, chain), w') \<longrightarrow>
           (\<exists>w1. wait_for_fence (imagesInFlight this ! unat imageIndex) w = Inr w1 \<and>
                  fence w1 (imagesInFlight this ! unat imageIndex) = Signaled \<and>
                  calls w1 = calls w @ [vkWaitForFences (imagesInFlight this ! unat imageIndex)] \<and>
                  calls w' = calls w1 @
                    [vkResetFences (inFlightFences this ! unat (currentFrame this)),
                     vkQueueSubmit graphicsQueue
                       (imageAvailableSemaphores this ! unat (currentFrame this))
                       VK_PIPELINE_STAGE_COLOR_ATTACHMENT_OUTPUT_BIT buffer
                       (renderFinishedSemaphores this ! unat (currentFrame this))
                       (inFlightFences this ! unat (currentFrame this)),
                     vkQueuePresentKHR presentQueue
                       (renderFinishedSemaphores this ! unat (currentFrame this))
                       (swapChain this) imageIndex]) \<and>
           imagesInFlight chain ! unat imageIndex =
             inFlightFences this ! unat (currentFrame this))) \<and>
   (set (imagesInFlight this) \<subseteq> {VK_NULL_HANDLE} \<longrightarrow>
      (\<forall>chain written w'.
         acquire_submit_pairs count buffer (this, index0, w) = Inr (chain, written, w') \<longrightarrow>
           no_image_reused_unobserved (drop (length (calls w)) (calls w'))))"
proof (intro conjI impI allI)
  assume "unat imageIndex < length (imagesInFlight this) \<and>
    imagesInFlight this ! unat imageIndex \<noteq> VK_NULL_HANDLE"
    and "fence w (imagesInFlight this ! unat imageIndex) = Unsignaled"
  then show "submitCommandBuffers this buffer imageIndex w = Inl NeverReturns"
    by (simp add: submitCommandBuffers_def submitCommandBuffers_steps_def bindW_def
          element_at_def wait_for_fence_def)
next
  fix presented chain w'
  assume marked: "unat imageIndex < length (imagesInFlight this) \<and>
    imagesInFlight this ! unat imageIndex \<noteq> VK_NULL_HANDLE"
    and returned: "submitCommandBuffers this buffer imageIndex w = Inr ((presented, chain), w')"
  note s = submitCommandBuffers_eq_Inr [OF returned]
  from s(2) marked have "wait_for_fence (imagesInFlight this ! unat imageIndex) w =
      Inr (w\<lparr>fence := (fence w)(imagesInFlight this ! unat imageIndex := Signaled),
              calls := calls w @ [vkWaitForFences (imagesInFlight this ! unat imageIndex)]\<rparr>)"
    by (simp add: wait_for_fence_eq_Inr)
  with s(4) marked
  show "\<exists>w1. wait_for_fence (imagesInFlight this ! unat imageIndex) w = Inr w1 \<and>
                  fence w1 (imagesInFlight this ! unat imageIndex) = Signaled \<and>
                  calls w1 = calls w @ [vkWaitForFences (imagesInFlight this ! unat imageIndex)] \<and>
                  calls w' = calls w1 @
                    [vkResetFences (inFlightFences this ! unat (currentFrame this)),
                     vkQueueSubmit graphicsQueue
                       (imageAvailableSemaphores this ! unat (currentFrame this))
                       VK_PIPELINE_STAGE_COLOR_ATTACHMENT_OUTPUT_BIT buffer
                       (renderFinishedSemaphores this ! unat (currentFrame this))
                       (inFlightFences this ! unat (currentFrame this)),
                     vkQueuePresentKHR presentQueue
                       (renderFinishedSemaphores this ! unat (currentFrame this))
                       (swapChain this) imageIndex]"
    by simp
  from s(1) show "imagesInFlight chain ! unat imageIndex =
             inFlightFences this ! unat (currentFrame this)"
    unfolding s(3) by simp
next
  fix chain written w'
  assume fresh: "set (imagesInFlight this) \<subseteq> {VK_NULL_HANDLE}"
    and run: "acquire_submit_pairs count buffer (this, index0, w) = Inr (chain, written, w')"
  have "imagesInFlight this ! n = VK_NULL_HANDLE" if "n < length (imagesInFlight this)" for n
    using fresh nth_mem [OF that] by auto
  then have "owner_matches this
      \<lparr>owner = (\<lambda>i. VK_NULL_HANDLE), observed = {}, submitted = None\<rparr>"
    by (simp add: owner_matches_def)
  from pairs_keep_owner_matches [OF run this]
  show "no_image_reused_unobserved (drop (length (calls w)) (calls w'))"
    by (auto simp: no_image_reused_unobserved_def)
qed

theorem image_reuse_waits_for_recorded_fence_witness:
  "no_image_reused_unobserved
     (drop 29 (calls (snd (snd (projr
        (acquire_submit_pairs 5 77
           (fst (projr (LveSwapChain_new \<lparr>width = 800, height = 600\<rparr> cycling_world)), 0,
            snd (projr (LveSwapChain_new \<lparr>width = 800, height = 600\<rparr> cycling_world))))))))) \<and>
   (\<exists>presented chain w'.
      submitCommandBuffers
        (fst (projr
          (acquire_submit_pairs 5 77
             (fst (projr (LveSwapChain_new \<lparr>width = 800, height = 600\<rparr> cycling_world)), 0,
              snd (projr (LveSwapChain_new \<lparr>width = 800, height = 600\<rparr> cycling_world))))))
        77 0
        (snd (snd (projr
          (acquire_submit_pairs 5 77
             (fst (projr (LveSwapChain_new \<lparr>width = 800, height = 600\<rparr> cycling_world)), 0,
              snd (projr (LveSwapChain_new \<lparr>width = 800, height = 600\<rparr> cycling_world)))))))
      = Inr ((presented, chain), w') \<and> imagesInFlight chain ! 0 = 26)"
proof -
  let ?built = "projr (LveSwapChain_new \<lparr>width = 800, height = 600\<rparr> cycling_world)"
  let ?run = "acquire_submit_pairs 5 77 (fst ?built, 0, snd ?built)"
  let ?chain = "fst (projr ?run)"
  let ?w = "snd (snd (projr ?run))"
  have fresh: "set (imagesInFlight (fst ?built)) \<subseteq> {VK_NULL_HANDLE}"
    by code_simp
  have made: "length (calls (snd ?built)) = 29"
    by code_simp
  have "\<not> isl ?run"
    by code_simp
  then have run: "?run = Inr (?chain, fst (snd (projr ?run)), ?w)"
    by (cases ?run) auto
  have first: "no_image_reused_unobserved (drop 29 (calls ?w))"
    using image_reuse_waits_for_recorded_fence
      [of 0 "fst ?built" "snd ?built" 77 5 0, THEN conjunct2, rule_format, OF fresh run]
      made
    by simp
  have marked: "unat (0 :: uint32_t) < length (imagesInFlight ?chain)"
    "imagesInFlight ?chain ! unat (0 :: uint32_t) \<noteq> VK_NULL_HANDLE"
    "inFlightFences ?chain ! unat (currentFrame ?chain) = 26"
    by code_simp+
  have "\<not> isl (submitCommandBuffers ?chain 77 0 ?w)"
    by code_simp
  then obtain presented chain w' where
    again: "submitCommandBuffers ?chain 77 0 ?w = Inr ((presented, chain), w')"
    by (cases "submitCommandBuffers ?chain 77 0 ?w") auto
  from image_reuse_waits_for_recorded_fence
    [of 0 ?chain ?w 77 0 0, THEN conjunct1, rule_format, OF conjI [OF marked(1,2)],
     THEN conjunct2, rule_format, OF again, THEN conjunct2]
    marked(3)
  have "imagesInFlight chain ! unat (0 :: uint32_t) = 26"
    by simp
  with again first show ?thesis
    by auto
qed

text \<open>
  C2, as the code has it. Every \<open>submitCommandBuffers\<close> that returns advances the swap
  chain's frame index by one modulo 2. Over any number of rounds of the frame loop that
  start with the renderer's frame-slot index at 0 or 1, that index ends at its start plus
  the number of frames completed, modulo 2, whatever images were acquired and whether or
  not the swap chain was rebuilt in between. The two indices stay equal when they start
  equal and the swap chain is not rebuilt during the rounds, whatever the calls report.
  A rebuild is seen in the calls, leaves the renderer's index as it is and gives the new
  swap chain the frame index 0.
\<close>

theorem frame_indices_advance_and_agree_until_rebuilt:
  "(\<forall>presented chain' w'.
      submitCommandBuffers chain buffer imageIndex w = Inr ((presented, chain'), w') \<longrightarrow>
        currentFrame chain' = (currentFrame chain + 1) mod 2) \<and>
   (currentFrameIndex this \<in> {0, 1} \<longrightarrow>
      (\<forall>completed after w'.
         frames count (this, w) = Inr (completed, after, w') \<longrightarrow>
           currentFrameIndex after = (currentFrameIndex this + int completed) mod 2 \<and>
           (lockstep this \<and> \<not> rebuilt_during (drop (length (calls w)) (calls w')) \<longrightarrow>
              lockstep after))) \<and>
   (\<forall>after w'.
      recreateSwapChain this w = Inr (after, w') \<longrightarrow>
        rebuilt_during (drop (length (calls w)) (calls w')) \<and>
        currentFrameIndex after = currentFrameIndex this \<and>
        (\<exists>rebuilt. lveSwapChain after = Some rebuilt \<and> currentFrame rebuilt = 0))"
proof (intro conjI impI allI)
  fix presented chain' w'
  assume "submitCommandBuffers chain buffer imageIndex w = Inr ((presented, chain'), w')"
  from submitCommandBuffers_eq_Inr(3) [OF this]
  show "currentFrame chain' = (currentFrame chain + 1) mod 2" by simp
next
  fix completed after w'
  assume "currentFrameIndex this \<in> {0, 1}"
    and "frames count (this, w) = Inr (completed, after, w')"
  then show "currentFrameIndex after = (currentFrameIndex this + int completed) mod 2"
    by (rule frames_advance_index [rotated])
next
  fix completed after w'
  assume "currentFrameIndex this \<in> {0, 1}"
    and "frames count (this, w) = Inr (completed, after, w')"
    and "lockstep this \<and> \<not> rebuilt_during (drop (length (calls w)) (calls w'))"
  then show "lockstep after"
    using frames_keep_lockstep [of count this w completed after w'] by blast
next
  fix after w'
  assume rebuilt: "recreateSwapChain this w = Inr (after, w')"
  from recreateSwapChain_calls(2) [OF rebuilt]
  show "rebuilt_during (drop (length (calls w)) (calls w'))" .
  from recreateSwapChain_eq_Inr [OF rebuilt]
  show "currentFrameIndex after = currentFrameIndex this"
    and "\<exists>rebuilt. lveSwapChain after = Some rebuilt \<and> currentFrame rebuilt = 0"
    by auto
qed

theorem frame_indices_advance_and_agree_until_rebuilt_witness:
  "(\<exists>presented chain w'.
      submitCommandBuffers (the (lveSwapChain example_renderer)) 27 0 running_world =
        Inr ((presented, chain), w') \<and>
      currentFrame chain = 1) \<and>
   (\<exists>after w'. frames 3 (example_renderer, suboptimal_acquire_world) = Inr (3, after, w') \<and>
      result_of suboptimal_acquire_world 1 = VK_SUBOPTIMAL_KHR \<and>
      calls w' ! 1 = vkAcquireNextImageKHR 1 21 \<and>
      currentFrameIndex after = 1 \<and> lockstep after) \<and>
   (\<exists>after w' rebuilt. recreateSwapChain example_renderer running_world = Inr (after, w') \<and>
      rebuilt_during (calls w') \<and>
      currentFrameIndex after = 0 \<and> lveSwapChain after = Some rebuilt \<and>
      currentFrame rebuilt = 0)"
proof -
  let ?run = "frames 3 (example_renderer, suboptimal_acquire_world)"
  have start: "currentFrameIndex example_renderer \<in> {0, 1}" "lockstep example_renderer"
    "currentFrameIndex example_renderer = 0"
    by (simp_all add: example_renderer_def lockstep_def)
  have empty: "calls suboptimal_acquire_world = []" "calls running_world = []"
    "result_of suboptimal_acquire_world 1 = VK_SUBOPTIMAL_KHR"
    by (simp_all add: suboptimal_acquire_world_def running_world_def example_world_def)
  have "\<not> isl ?run" "fst (projr ?run) = 3"
    by code_simp+
  then have run: "?run = Inr (3, fst (snd (projr ?run)), snd (snd (projr ?run)))"
    by (cases ?run) auto
  have quiet: "\<not> rebuilt_during (drop (length (calls suboptimal_acquire_world))
                   (calls (snd (snd (projr ?run)))))"
    by code_simp
  have acquired: "calls (snd (snd (projr ?run))) ! 1 = vkAcquireNextImageKHR 1 21"
    by code_simp
  from frame_indices_advance_and_agree_until_rebuilt
    [where this = example_renderer and count = 3 and w = suboptimal_acquire_world,
     THEN conjunct2, THEN conjunct1, rule_format, OF start(1) run]
    start quiet
  have first: "currentFrameIndex (fst (snd (projr ?run))) = 1"
    "lockstep (fst (snd (projr ?run)))"
    by simp_all
  have "\<not> isl (recreateSwapChain example_renderer running_world)"
    by code_simp
  then obtain again w'' where
    rebuilt: "recreateSwapChain example_renderer running_world = Inr (again, w'')"
    by (cases "recreateSwapChain example_renderer running_world") auto
  from frame_indices_advance_and_agree_until_rebuilt
    [where this = example_renderer and w = running_world,
     THEN conjunct2, THEN conjunct2, rule_format, OF rebuilt]
    start(3) empty(2)
  obtain chain where fresh_chain: "rebuilt_during (calls w'')" "currentFrameIndex again = 0"
    "lveSwapChain again = Some chain" "currentFrame chain = 0"
    by auto
  have "\<not> isl (submitCommandBuffers (the (lveSwapChain example_renderer)) 27 0 running_world)"
    "currentFrame (the (lveSwapChain example_renderer)) = 0"
    by code_simp+
  then obtain presented advanced w3 where
    submitted: "submitCommandBuffers (the (lveSwapChain example_renderer)) 27 0 running_world =
      Inr ((presented, advanced), w3)"
    and zero: "currentFrame (the (lveSwapChain example_renderer)) = 0"
    by (cases "submitCommandBuffers (the (lveSwapChain example_renderer)) 27 0 running_world")
       auto
  from frame_indices_advance_and_agree_until_rebuilt
    [where chain = "the (lveSwapChain example_renderer)" and buffer = 27 and imageIndex = 0
       and w = running_world,
     THEN conjunct1, rule_format, OF submitted]
    zero
  have "currentFrame advanced = 1"
    by simp
  with submitted rebuilt run first fresh_chain acquired empty(3) show ?thesis
    by blast
qed

text \<open>
  C2 as stated fails: the renderer built for a window that has been resized is in
  lockstep; its first frame completes, and ends with the swap chain rebuilt and the two
  indices different (1 in the renderer, 0 in the new swap chain).
\<close>

theorem lockstep_lost_across_reconstruction_counterexample:
  "map_sum id (lockstep \<circ> fst) (LveRenderer_new 0 0 False resized_world) = Inr True \<and>
   map_sum id fst (frames 1 (projr (LveRenderer_new 0 0 False resized_world))) = Inr 1 \<and>
   map_sum id (lockstep \<circ> fst \<circ> snd)
     (frames 1 (projr (LveRenderer_new 0 0 False resized_world))) = Inr False"
  by code_simp

end
